theory Spec2Isabelle
  imports Main "HOL-Library.Sublist" "HOL-Library.Multiset" "HOL-Library.Monad_Syntax"
begin

section \<open>Python strings\<close>

text \<open>
  A Python \<open>str\<close> is modelled as a \<open>string\<close>; each \<open>char\<close> stands for the code point of
  the same number (0 to 255). The character classes below are the ones Python uses on
  that range.
\<close>

definition NL :: char where "NL = CHR 0x0A"
definition CR :: char where "CR = CHR 0x0D"

text \<open>\<open>str.isspace\<close>, which is also \<open>\s\<close> of \<open>re\<close> and the separator set of
  \<open>str.split()\<close> and \<open>str.strip()\<close>.\<close>

definition py_isspace :: "char \<Rightarrow> bool" where
  "py_isspace c = (c \<in> set [CHR 0x09, CHR 0x0A, CHR 0x0B, CHR 0x0C, CHR 0x0D,
      CHR 0x1C, CHR 0x1D, CHR 0x1E, CHR 0x1F, CHR 0x20, CHR 0x85, CHR 0xA0])"

text \<open>The line boundaries of \<open>str.splitlines()\<close>.\<close>

definition is_linebreak :: "char \<Rightarrow> bool" where
  "is_linebreak c = (c \<in> set [CHR 0x0A, CHR 0x0B, CHR 0x0C, CHR 0x0D,
      CHR 0x1C, CHR 0x1D, CHR 0x1E, CHR 0x85])"

definition in_range :: "nat \<Rightarrow> nat \<Rightarrow> char \<Rightarrow> bool" where
  "in_range lo hi c = (lo \<le> of_char c \<and> (of_char c :: nat) \<le> hi)"

definition is_ascii_upper :: "char \<Rightarrow> bool" where
  "is_ascii_upper c = in_range 65 90 c"

definition is_ascii_lower :: "char \<Rightarrow> bool" where
  "is_ascii_lower c = in_range 97 122 c"

definition is_ascii_digit :: "char \<Rightarrow> bool" where
  "is_ascii_digit c = in_range 48 57 c"

text \<open>Characters with a lower-case partner: A to Z, and 0xC0 to 0xDE without 0xD7.\<close>

definition has_lower :: "char \<Rightarrow> bool" where
  "has_lower c = (is_ascii_upper c \<or> (in_range 192 222 c \<and> c \<noteq> CHR 0xD7))"

definition lower_char :: "char \<Rightarrow> char" where
  "lower_char c =
     (if has_lower c
      then (case c of Char b0 b1 b2 b3 b4 b5 b6 b7 \<Rightarrow> Char b0 b1 b2 b3 b4 True b6 b7)
      else c)"

definition lower :: "string \<Rightarrow> string" where
  "lower s = map lower_char s"

text \<open>\<open>\w\<close> of \<open>re\<close> on \<open>str\<close>: alphanumeric (letters, digits, numeric characters) or
  underscore.\<close>

definition is_word :: "char \<Rightarrow> bool" where
  "is_word c = (is_ascii_digit c \<or> is_ascii_upper c \<or> is_ascii_lower c \<or> c = CHR ''_''
     \<or> c \<in> set [CHR 0xAA, CHR 0xB2, CHR 0xB3, CHR 0xB5, CHR 0xB9, CHR 0xBA,
                 CHR 0xBC, CHR 0xBD, CHR 0xBE]
     \<or> (in_range 192 255 c \<and> c \<noteq> CHR 0xD7 \<and> c \<noteq> CHR 0xF7))"

text \<open>\<open>sub in s\<close>: \<open>sub\<close> occurs in \<open>s\<close> as a contiguous substring.\<close>

fun py_in :: "string \<Rightarrow> string \<Rightarrow> bool" where
  "py_in sub [] = (sub = [])"
| "py_in sub (c # cs) = (prefix sub (c # cs) \<or> py_in sub cs)"

text \<open>\<open>s.find(sub)\<close>: the least index at which \<open>sub\<close> occurs, or -1.\<close>

fun find_from :: "int \<Rightarrow> string \<Rightarrow> string \<Rightarrow> int" where
  "find_from i sub [] = (if sub = [] then i else -1)"
| "find_from i sub (c # cs) = (if prefix sub (c # cs) then i else find_from (i + 1) sub cs)"

definition py_find :: "string \<Rightarrow> string \<Rightarrow> int" where
  "py_find s sub = find_from 0 sub s"

definition strip :: "string \<Rightarrow> string" where
  "strip s = rev (dropWhile py_isspace (rev (dropWhile py_isspace s)))"

text \<open>\<open>s.split()\<close>: the maximal runs of non-whitespace characters. The first argument
  is the run read so far.\<close>

fun split_acc :: "string \<Rightarrow> string \<Rightarrow> string list" where
  "split_acc cur [] = (if cur = [] then [] else [cur])"
| "split_acc cur (c # cs) =
     (if py_isspace c
      then (if cur = [] then split_acc [] cs else cur # split_acc [] cs)
      else split_acc (cur @ [c]) cs)"

definition split :: "string \<Rightarrow> string list" where
  "split s = split_acc [] s"

text \<open>\<open>s.splitlines()\<close>: a line ends at a line boundary, CR LF counts as one boundary,
  and a last line without boundary is kept when it is not empty.\<close>

fun splitlines_acc :: "string \<Rightarrow> string \<Rightarrow> string list" where
  "splitlines_acc cur [] = (if cur = [] then [] else [cur])"
| "splitlines_acc cur [c] =
     (if is_linebreak c then [cur] else [cur @ [c]])"
| "splitlines_acc cur (c # d # cs) =
     (if c = CR \<and> d = NL then cur # splitlines_acc [] cs
      else if is_linebreak c then cur # splitlines_acc [] (d # cs)
      else splitlines_acc (cur @ [c]) (d # cs))"

definition splitlines :: "string \<Rightarrow> string list" where
  "splitlines s = splitlines_acc [] s"

text \<open>\<open>sep.join(xs)\<close>.\<close>

fun join :: "string \<Rightarrow> string list \<Rightarrow> string" where
  "join sep [] = []"
| "join sep [x] = x"
| "join sep (x # y # ys) = x @ sep @ join sep (y # ys)"

text \<open>\<open>enumerate(xs, start)\<close>.\<close>

fun enumerate_from :: "int \<Rightarrow> 'a list \<Rightarrow> (int \<times> 'a) list" where
  "enumerate_from i [] = []"
| "enumerate_from i (x # xs) = (i, x) # enumerate_from (i + 1) xs"

section \<open>Regular expressions of the \<open>re\<close> module\<close>

text \<open>
  The fragment of \<open>re\<close> the patterns of the repository use, with its backtracking
  semantics: greedy and lazy repetition of one character class, literals with and
  without \<open>IGNORECASE\<close>, one capturing group, alternation and the lookahead \<open>(?=\n)\<close>.
  No pattern uses \<open>^\<close> or \<open>$\<close>, so \<open>MULTILINE\<close> changes nothing.
\<close>

datatype rx =
    Lit string
  | LitI string
  | Star "char \<Rightarrow> bool"
  | Plus "char \<Rightarrow> bool"
  | LazyStar "char \<Rightarrow> bool"
  | Seq rx rx
  | Alt rx rx
  | Group rx
  | AheadNL

text \<open>The character classes of the patterns.\<close>

definition dot :: "char \<Rightarrow> bool" where "dot c = (c \<noteq> NL)"
definition cls_not :: "char \<Rightarrow> char \<Rightarrow> bool" where "cls_not x c = (c \<noteq> x)"
definition cls_flag :: "char \<Rightarrow> bool" where
  "cls_flag c = (is_ascii_lower c \<or> is_ascii_upper c \<or> is_ascii_digit c \<or> c = CHR ''-'')"
definition cls_ident :: "char \<Rightarrow> bool" where
  "cls_ident c = (is_ascii_lower c \<or> is_ascii_upper c \<or> c = CHR ''_'')"

text \<open>A match result: the input left after the match and the text of group 1.\<close>

type_synonym mres = "(string \<times> string option) option"

text \<open>Greedy repetition: take a character when possible and give it back when the rest
  of the pattern fails.\<close>

fun star_greedy :: "(char \<Rightarrow> bool) \<Rightarrow> string \<Rightarrow> (string \<Rightarrow> mres) \<Rightarrow> mres" where
  "star_greedy p [] k = k []"
| "star_greedy p (c # cs) k =
     (if p c
      then (case star_greedy p cs k of Some r \<Rightarrow> Some r | None \<Rightarrow> k (c # cs))
      else k (c # cs))"

text \<open>Lazy repetition: try the rest of the pattern first.\<close>

fun star_lazy :: "(char \<Rightarrow> bool) \<Rightarrow> string \<Rightarrow> (string \<Rightarrow> mres) \<Rightarrow> mres" where
  "star_lazy p [] k = k []"
| "star_lazy p (c # cs) k =
     (case k (c # cs) of Some r \<Rightarrow> Some r
      | None \<Rightarrow> if p c then star_lazy p cs k else None)"

definition plus_greedy :: "(char \<Rightarrow> bool) \<Rightarrow> string \<Rightarrow> (string \<Rightarrow> mres) \<Rightarrow> mres" where
  "plus_greedy p s k =
     (case s of [] \<Rightarrow> None | c # cs \<Rightarrow> if p c then star_greedy p cs k else None)"

text \<open>The matcher, in continuation-passing style: \<open>k\<close> matches the rest of the pattern.\<close>

fun rmatch :: "rx \<Rightarrow> string \<Rightarrow> (string \<Rightarrow> mres) \<Rightarrow> mres" where
  "rmatch (Lit l) s k = (if prefix l s then k (drop (length l) s) else None)"
| "rmatch (LitI l) s k =
     (if length l \<le> length s \<and> lower (take (length l) s) = lower l
      then k (drop (length l) s) else None)"
| "rmatch (Star p) s k = star_greedy p s k"
| "rmatch (Plus p) s k = plus_greedy p s k"
| "rmatch (LazyStar p) s k = star_lazy p s k"
| "rmatch (Seq a b) s k = rmatch a s (\<lambda>s'. rmatch b s' k)"
| "rmatch (Alt a b) s k =
     (case rmatch a s k of Some r \<Rightarrow> Some r | None \<Rightarrow> rmatch b s k)"
| "rmatch (Group a) s k =
     rmatch a s (\<lambda>s'. case k s' of None \<Rightarrow> None
        | Some (rest, g) \<Rightarrow> Some (rest, Some (take (length s - length s') s)))"
| "rmatch AheadNL s k = (case s of [] \<Rightarrow> None | c # cs \<Rightarrow> if c = NL then k s else None)"

text \<open>A successful match as \<open>re\<close> reports it: \<open>group(0)\<close>, \<open>group(1)\<close> and the input after
  the match.\<close>

record rmatch_obj =
  group0 :: string
  group1 :: "string option"
  after :: string

text \<open>\<open>re.match\<close>: the pattern at the start of the string.\<close>

definition re_match :: "rx \<Rightarrow> string \<Rightarrow> rmatch_obj option" where
  "re_match r s =
     (case rmatch r s (\<lambda>s'. Some (s', None)) of None \<Rightarrow> None
      | Some (rest, g) \<Rightarrow>
          Some \<lparr>group0 = take (length s - length rest) s, group1 = g, after = rest\<rparr>)"

text \<open>\<open>re.search\<close>: the match at the leftmost position that has one.\<close>

fun re_search :: "rx \<Rightarrow> string \<Rightarrow> rmatch_obj option" where
  "re_search r [] = re_match r []"
| "re_search r (c # cs) =
     (case re_match r (c # cs) of Some m \<Rightarrow> Some m | None \<Rightarrow> re_search r cs)"

text \<open>The successive non-overlapping matches of \<open>re.findall\<close> and \<open>re.finditer\<close>, left to
  right. After an empty match at the current position the scan moves one character on.\<close>

function finditer :: "rx \<Rightarrow> string \<Rightarrow> rmatch_obj list" where
  "finditer r s =
     (case re_search r s of None \<Rightarrow> []
      | Some m \<Rightarrow>
          m # (if length (after m) < length s then finditer r (after m)
               else (case s of [] \<Rightarrow> [] | c # cs \<Rightarrow> finditer r cs)))"
  by pat_completeness auto
termination
  by (relation "measure (\<lambda>(r, s). length s)") auto

declare finditer.simps [simp del]

text \<open>\<open>re.findall\<close> for a pattern without group gives the matched texts; for a pattern
  with one group it gives the texts of the group (empty where the group took no part).\<close>

definition findall0 :: "rx \<Rightarrow> string \<Rightarrow> string list" where
  "findall0 r s = map group0 (finditer r s)"

definition findall1 :: "rx \<Rightarrow> string \<Rightarrow> string list" where
  "findall1 r s = map (\<lambda>m. case group1 m of None \<Rightarrow> [] | Some g \<Rightarrow> g) (finditer r s)"

text \<open>A pattern written as the sequence of its parts.\<close>

fun seqs :: "rx list \<Rightarrow> rx" where
  "seqs [] = Lit []"
| "seqs [r] = r"
| "seqs (r # rs) = Seq r (seqs rs)"

text \<open>\<open>m.group(1)\<close>. In every pattern below the group lies outside any alternative, so it
  takes part in every match.\<close>

definition group_1 :: "rmatch_obj \<Rightarrow> string" where
  "group_1 m = (case group1 m of None \<Rightarrow> [] | Some g \<Rightarrow> g)"

section \<open>The data model (\<open>database/models.py\<close>)\<close>

datatype CompilerStage = PARSE | SEMA | CODEGEN | AST_PRINT | UNKNOWN

datatype TestCategory =
  PARALLEL | WORKSHARING | TARGET | SYNCHRONIZATION | SIMD | TASK | GENERAL

record OpenMPDirective =
  name :: string
  clauses :: "string list"
  line_number :: int
  column_number :: int
  full_text :: string

section \<open>Directive extraction from the text (\<open>FileProcessor._extract_openmp_directives\<close>)\<close>

text \<open>\<^verbatim>\<open>\s*#pragma\s+omp\s+(.+)\<close>\<close>

definition pragma_rx :: rx where
  "pragma_rx = seqs [Star py_isspace, Lit ''#pragma'', Plus py_isspace, Lit ''omp'',
                     Plus py_isspace, Group (Plus dot)]"

text \<open>The body of the loop over the numbered lines: the directive of a line that the
  pattern matches.\<close>

definition line_directive :: "int \<times> string \<Rightarrow> OpenMPDirective option" where
  "line_directive nl =
     (case nl of (line_num, line) \<Rightarrow>
        (case re_match pragma_rx line of
           None \<Rightarrow> None
         | Some pragma_match \<Rightarrow>
             (let directive_text = strip (group_1 pragma_match);
                  parts = split directive_text;
                  directive_name = (case parts of [] \<Rightarrow> [] | p # ps \<Rightarrow> p);
                  clauses = (if length parts > 1 then drop 1 parts else [])
              in Some \<lparr>name = directive_name, clauses = clauses, line_number = line_num,
                        column_number = py_find line ''#pragma'', full_text = strip line\<rparr>)))"

definition extract_openmp_directives :: "string \<Rightarrow> OpenMPDirective list" where
  "extract_openmp_directives content =
     List.map_filter line_directive (enumerate_from 1 (splitlines content))"

section \<open>Directive extraction from the token stream (\<open>core/ast_extractor.py\<close>)\<close>

text \<open>A source location and a token of the parser, as far as the extractor reads them.\<close>

record location =
  line :: int
  column :: int

record token =
  tok_spelling :: string
  tok_location :: location

text \<open>\<open>ASTExtractor._parse_openmp_directive\<close>; \<open>None\<close> is its \<open>return None\<close>.\<close>

definition parse_openmp_directive :: "string \<Rightarrow> location \<Rightarrow> OpenMPDirective option" where
  "parse_openmp_directive pragma_text loc =
     (let parts = split pragma_text in
      if length parts < 3 \<or> parts ! 1 \<noteq> ''pragma'' \<or> parts ! 2 \<noteq> ''omp'' then None
      else
        (let directive_name = (if length parts > 3 then parts ! 3 else []);
             clauses = (if length parts > 4 then drop 4 parts else [])
         in Some \<lparr>name = directive_name, clauses = clauses, line_number = line loc,
                   column_number = column loc, full_text = pragma_text\<rparr>))"

text \<open>\<open>ASTExtractor._extract_openmp_pragmas\<close> on the token list of one node: the
  directives it appends to \<open>patterns['openmp_directives']\<close>. The recursion is the loop
  over the index \<open>i\<close>; the argument is \<open>tokens[i:]\<close>.\<close>

fun extract_openmp_pragmas :: "token list \<Rightarrow> OpenMPDirective list" where
  "extract_openmp_pragmas [] = []"
| "extract_openmp_pragmas (tok # ts) =
     (if tok_spelling tok = ''#''
         \<and> (case ts of t1 # t2 # _ \<Rightarrow> tok_spelling t1 = ''pragma'' \<and> tok_spelling t2 = ''omp''
             | _ \<Rightarrow> False)
      then
        (let pragma_tokens =
               map tok_spelling
                 (takeWhile (\<lambda>t. line (tok_location t) = line (tok_location tok)) (tok # ts));
             pragma_text = join '' '' pragma_tokens
         in (case parse_openmp_directive pragma_text (tok_location tok) of
               Some directive \<Rightarrow> directive # extract_openmp_pragmas ts
             | None \<Rightarrow> extract_openmp_pragmas ts))
      else extract_openmp_pragmas ts)"

section \<open>The rest of the data model\<close>

text \<open>
  Python values without a declared class: the result of \<open>to_dict\<close>, the dictionaries the
  parser's declarations are kept in, and the field \<open>expected_vs_actual_errors : Dict\<close>. A
  dictionary is the list of its items in insertion order. The members of the two
  enumerations are values too: \<open>asdict\<close> leaves them in its result.
\<close>

datatype pyval =
    PStr string
  | PInt int
  | PBool bool
  | PNone
  | PList "pyval list"
  | PDict "(string \<times> pyval) list"
  | PStage CompilerStage
  | PCategory TestCategory

record ASTNode =
  node_type :: string
  spelling :: string
  location :: string
  children_count :: int
  has_openmp :: bool

record ParseError =
  error_type :: string
  message :: string
  pe_line_number :: int
  pe_column_number :: int
  severity :: string

record ExpectedErrorPattern =
  pattern :: string
  error_category :: string
  regex_pattern :: "string option"
  ep_line_number :: int

record NegativeTestCharacteristics =
  is_negative_test :: bool
  error_testing_strategy :: "string option"
  expected_vs_actual_errors :: pyval
  error_coverage_areas :: "string list"
  error_trigger_count :: int

section \<open>Python sets and dictionaries\<close>

text \<open>
  A Python \<open>set\<close> of strings is kept as the list of its distinct elements in the order they
  were added. \<open>list(s)\<close> walks the hash table of the set: the order it yields is fixed by
  the hash values of the elements, which the interpreter draws anew for each process
  (string hashing is randomised). The hash function is therefore an input of the model,
  and \<open>list(s)\<close> orders the elements by it, elements of equal hash in insertion order.
\<close>

definition set_add :: "string list \<Rightarrow> string \<Rightarrow> string list" where
  "set_add s x = (if x \<in> set s then s else s @ [x])"

definition set_update :: "string list \<Rightarrow> string list \<Rightarrow> string list" where
  "set_update s xs = foldl set_add s xs"

definition list_of_set :: "(string \<Rightarrow> nat) \<Rightarrow> string list \<Rightarrow> string list" where
  "list_of_set str_hash s = sort_key str_hash s"

text \<open>A \<open>dict\<close> as the list of its items in insertion order: assigning to a key that is
  present replaces the value in place.\<close>

fun dict_set :: "('k \<times> 'v) list \<Rightarrow> 'k \<Rightarrow> 'v \<Rightarrow> ('k \<times> 'v) list" where
  "dict_set [] k v = [(k, v)]"
| "dict_set ((k', v') # d) k v =
     (if k' = k then (k, v) # d else (k', v') # dict_set d k v)"

definition dict_has :: "('k \<times> 'v) list \<Rightarrow> 'k \<Rightarrow> bool" where
  "dict_has d k = (map_of d k \<noteq> None)"

section \<open>The environment of one run\<close>

text \<open>
  What \<open>process_test_file\<close> reads from outside the repository: the file system, the
  parser behind \<open>ASTExtractor.extract_patterns\<close>, Python's \<open>str\<close> on a dictionary, the
  clock and the string hash of the process.
\<close>

text \<open>A \<open>pathlib.Path\<close>, by what the code asks of it: \<open>str(file_path)\<close> and
  \<open>file_path.name\<close>.\<close>

record path =
  path_str :: string
  path_name :: string

text \<open>An existing file: the size \<open>stat()\<close> reports and the result of \<open>read_text\<close>, \<open>None\<close>
  when reading raises.\<close>

record file_entry =
  st_size :: int
  read_text :: "string option"

text \<open>The dictionary \<open>extract_patterns\<close> returns: \<open>{}\<close> when the parser fails, else the
  lists below. A field is \<open>None\<close> when its key is absent.\<close>

record ast_patterns =
  ap_ast_nodes :: "ASTNode list option"
  ap_openmp_directives :: "OpenMPDirective list option"
  ap_function_declarations :: "pyval list option"
  ap_variable_declarations :: "pyval list option"
  ap_parse_errors :: "ParseError list option"

definition empty_ast_patterns :: ast_patterns where
  "empty_ast_patterns = \<lparr>ap_ast_nodes = None, ap_openmp_directives = None,
     ap_function_declarations = None, ap_variable_declarations = None,
     ap_parse_errors = None\<rparr>"

text \<open>\<open>d.get(key, [])\<close>.\<close>

definition get_list :: "'a list option \<Rightarrow> 'a list" where
  "get_list v = (case v of None \<Rightarrow> [] | Some xs \<Rightarrow> xs)"

record env =
  fs :: "string \<Rightarrow> file_entry option"
  extract_patterns :: "string \<Rightarrow> ast_patterns"
  py_str :: "pyval \<Rightarrow> string"
  now_isoformat :: string
  str_hash :: "string \<Rightarrow> nat"

section \<open>The file processor (\<open>core/file_processor.py\<close>)\<close>

definition DQ :: char where "DQ = CHR 0x22"

subsection \<open>The patterns\<close>

text \<open>\<^verbatim>\<open>//\s*RUN:\s*(.+)\<close>\<close>

definition run_rx :: rx where
  "run_rx = seqs [Lit ''//'', Star py_isspace, Lit ''RUN:'', Star py_isspace, Group (Plus dot)]"

text \<open>\<^verbatim>\<open>(-[a-zA-Z0-9-]+)\<close>\<close>

definition flag_rx :: rx where
  "flag_rx = Group (seqs [Lit ''-'', Plus cls_flag])"

text \<open>\<^verbatim>\<open>-fopenmp-version=(\d+)\<close>; on the code points modelled, \<open>\d\<close> is 0 to 9.\<close>

definition version_flag_rx :: rx where
  "version_flag_rx = seqs [Lit ''-fopenmp-version='', Group (Plus is_ascii_digit)]"

text \<open>\<^verbatim>\<open>OpenMP\s+(\d+\.\d+)\<close> with \<open>IGNORECASE\<close>\<close>

definition version_text_rx :: rx where
  "version_text_rx = seqs [LitI ''OpenMP'', Plus py_isspace,
     Group (seqs [Plus is_ascii_digit, Lit ''.'', Plus is_ascii_digit])]"

text \<open>\<^verbatim>\<open>//\s*CHECK[^:]*:\s*(.+)\<close>\<close>

definition check_rx :: rx where
  "check_rx = seqs [Lit ''//'', Star py_isspace, Lit ''CHECK'', Star (cls_not CHR '':''),
     Lit '':'', Star py_isspace, Group (Plus dot)]"

text \<open>\<^verbatim>\<open>//\s*expected-error[^:]*:\s*(.+)\<close>\<close>

definition expected_error_rx :: rx where
  "expected_error_rx = seqs [Lit ''//'', Star py_isspace, Lit ''expected-error'',
     Star (cls_not CHR '':''), Lit '':'', Star py_isspace, Group (Plus dot)]"

text \<open>\<^verbatim>\<open>//\s*expected-warning[^:]*:\s*(.+)\<close>\<close>

definition expected_warning_rx :: rx where
  "expected_warning_rx = seqs [Lit ''//'', Star py_isspace, Lit ''expected-warning'',
     Star (cls_not CHR '':''), Lit '':'', Star py_isspace, Group (Plus dot)]"

text \<open>\<^verbatim>\<open>\{\{.*?\}\}\<close>\<close>

definition braces_rx :: rx where
  "braces_rx = seqs [Lit ''{{'', LazyStar dot, Lit ''}}'']"

text \<open>\<^verbatim>\<open>@(__kmpc_[a-zA-Z_]+|omp_[a-zA-Z_]+)\<close>\<close>

definition runtime_rx :: rx where
  "runtime_rx = seqs [Lit ''@'',
     Group (Alt (seqs [Lit ''__kmpc_'', Plus cls_ident]) (seqs [Lit ''omp_'', Plus cls_ident]))]"

text \<open>The five trigger patterns, all under \<open>IGNORECASE\<close>:
  \<^verbatim>\<open>#pragma\s+omp\s+\w+.*?(?=\n)\<close>,
  \<^verbatim>\<open>expected-error.*?"([^"]+)"\<close>,
  \<^verbatim>\<open>expected-warning.*?"([^"]+)"\<close>,
  \<^verbatim>\<open>// ERROR:.*\<close> and
  \<^verbatim>\<open>// FIXME:.*\<close>.\<close>

definition trigger_pragma_rx :: rx where
  "trigger_pragma_rx = seqs [LitI ''#pragma'', Plus py_isspace, LitI ''omp'', Plus py_isspace,
     Plus is_word, LazyStar dot, AheadNL]"

definition trigger_error_rx :: rx where
  "trigger_error_rx = seqs [LitI ''expected-error'', LazyStar dot, Lit [DQ],
     Group (Plus (cls_not DQ)), Lit [DQ]]"

definition trigger_warning_rx :: rx where
  "trigger_warning_rx = seqs [LitI ''expected-warning'', LazyStar dot, Lit [DQ],
     Group (Plus (cls_not DQ)), Lit [DQ]]"

definition trigger_error_comment_rx :: rx where
  "trigger_error_comment_rx = seqs [LitI ''// ERROR:'', Star dot]"

definition trigger_fixme_rx :: rx where
  "trigger_fixme_rx = seqs [LitI ''// FIXME:'', Star dot]"

subsection \<open>Reading the file\<close>

text \<open>\<open>_read_file_content\<close>: the text, or \<open>None\<close> when \<open>read_text\<close> raises.\<close>

definition read_file_content :: "file_entry \<Rightarrow> string option" where
  "read_file_content f = read_text f"

record file_info =
  info_size :: int
  info_line_count :: int

definition extract_file_info :: "file_entry \<Rightarrow> string \<Rightarrow> file_info" where
  "extract_file_info f content =
     \<lparr>info_size = st_size f, info_line_count = int (length (splitlines content))\<rparr>"

subsection \<open>Test structure\<close>

definition extract_run_commands :: "string \<Rightarrow> string list" where
  "extract_run_commands content = map strip (findall1 run_rx content)"

definition extract_compiler_flags :: "(string \<Rightarrow> nat) \<Rightarrow> string list \<Rightarrow> string list" where
  "extract_compiler_flags h run_commands =
     list_of_set h (foldl (\<lambda>flags cmd. set_update flags (findall1 flag_rx cmd)) [] run_commands)"

definition determine_compiler_stage :: "string list \<Rightarrow> string \<Rightarrow> CompilerStage" where
  "determine_compiler_stage run_commands content =
     (let run_text = lower (join '' '' run_commands) in
      if py_in ''-fsyntax-only'' run_text \<or> py_in ''-verify'' run_text then SEMA
      else if py_in ''-ast-print'' run_text \<or> py_in ''-ast-dump'' run_text then AST_PRINT
      else if py_in ''-emit-llvm'' run_text \<or> py_in ''filecheck'' run_text then CODEGEN
      else if list_ex (\<lambda>cmd. py_in ''parse'' (lower cmd)) run_commands then PARSE
      else UNKNOWN)"

text \<open>The loop over the run commands of \<open>_extract_openmp_version\<close>: the first command
  with a version flag decides.\<close>

fun version_of_commands :: "string list \<Rightarrow> string option" where
  "version_of_commands [] = None"
| "version_of_commands (cmd # cmds) =
     (case re_search version_flag_rx cmd of
        Some version_match \<Rightarrow> Some (group_1 version_match)
      | None \<Rightarrow> version_of_commands cmds)"

definition extract_openmp_version :: "string \<Rightarrow> string list \<Rightarrow> string option" where
  "extract_openmp_version content run_commands =
     (case version_of_commands run_commands of
        Some v \<Rightarrow> Some v
      | None \<Rightarrow>
          (case re_search version_text_rx content of
             Some version_match \<Rightarrow> Some (group_1 version_match)
           | None \<Rightarrow> None))"

definition extract_check_patterns :: "string \<Rightarrow> string list" where
  "extract_check_patterns content = map strip (findall1 check_rx content)"

definition extract_expected_errors :: "string \<Rightarrow> string list" where
  "extract_expected_errors content = map strip (findall1 expected_error_rx content)"

definition extract_expected_warnings :: "string \<Rightarrow> string list" where
  "extract_expected_warnings content = map strip (findall1 expected_warning_rx content)"

definition ir_keywords :: "string list" where
  "ir_keywords = [''call'', ''invoke'', ''alloca'', ''load'', ''store'', ''br'', ''ret'',
     ''define'', ''declare'', ''getelementptr'', ''bitcast'', ''icmp'']"

definition extract_ir_patterns :: "string list \<Rightarrow> string list" where
  "extract_ir_patterns check_patterns =
     filter (\<lambda>p. list_ex (\<lambda>keyword. py_in keyword (lower p)) ir_keywords) check_patterns"

definition extract_runtime_calls :: "(string \<Rightarrow> nat) \<Rightarrow> string list \<Rightarrow> string list" where
  "extract_runtime_calls h check_patterns =
     (let runtime_calls =
            List.map_filter
              (\<lambda>p. case re_search runtime_rx p of
                      Some runtime_match \<Rightarrow> Some (group_1 runtime_match)
                    | None \<Rightarrow> None)
              check_patterns
      in list_of_set h (set_update [] runtime_calls))"

subsection \<open>Category, negative tests and the score\<close>

definition categorize_test :: "string \<Rightarrow> OpenMPDirective list \<Rightarrow> string \<Rightarrow> TestCategory" where
  "categorize_test filename directives content =
     (let filename_lower = lower filename;
          content_lower = lower content;
          directive_names = map (\<lambda>d. lower (name d)) directives
      in
      if py_in ''parallel'' filename_lower
         \<or> list_ex (\<lambda>n. py_in ''parallel'' n) directive_names
         \<or> py_in ''parallel'' content_lower
      then PARALLEL
      else if py_in ''for'' filename_lower \<or> py_in ''sections'' filename_lower
         \<or> list_ex (\<lambda>n. n \<in> set [''for'', ''sections'', ''single'']) directive_names
      then WORKSHARING
      else if py_in ''target'' filename_lower
         \<or> list_ex (\<lambda>n. py_in ''target'' n) directive_names
      then TARGET
      else if py_in ''atomic'' filename_lower \<or> py_in ''critical'' filename_lower
         \<or> list_ex (\<lambda>n. n \<in> set [''atomic'', ''critical'', ''barrier'']) directive_names
      then SYNCHRONIZATION
      else if py_in ''simd'' filename_lower
         \<or> list_ex (\<lambda>n. py_in ''simd'' n) directive_names
      then SIMD
      else if py_in ''task'' filename_lower
         \<or> list_ex (\<lambda>n. py_in ''task'' n) directive_names
      then TASK
      else GENERAL)"

definition negative_indicators :: "string list" where
  "negative_indicators = [''messages'', ''error'', ''warn'', ''diag'', ''negative'',
     ''invalid'', ''bad'', ''fail'', ''wrong'']"

definition is_negative_test_case :: "path \<Rightarrow> string \<Rightarrow> bool" where
  "is_negative_test_case fp content =
     (let filename = lower (path_name fp) in
      if list_ex (\<lambda>indicator. py_in indicator filename) negative_indicators then True
      else if py_in ''expected-error'' content \<or> py_in ''expected-warning'' content then True
      else False)"

text \<open>The dictionary \<open>_categorize_error_patterns\<close> builds; \<open>error_types\<close> is a set.\<close>

record error_patterns =
  ep_parse_errors :: "ParseError list"
  expected_patterns :: "ExpectedErrorPattern list"
  trigger_mechanisms :: "string list"
  ep_error_types :: "string list"

definition calculate_complexity_score ::
  "OpenMPDirective list \<Rightarrow> string list \<Rightarrow> string list \<Rightarrow> ast_patterns \<Rightarrow> error_patterns \<Rightarrow> int"
where
  "calculate_complexity_score directives check_patterns expected_errors ast error_pats =
     (let score = 0;
          score = score + int (length directives) * 2;
          total_clauses = sum_list (map (\<lambda>d. int (length (clauses d))) directives);
          score = score + total_clauses;
          score = score + int (length check_patterns);
          score = score + int (length expected_errors) * 2;
          score = score + int (length (get_list (ap_function_declarations ast))) div 2;
          score = score + int (length (ep_parse_errors error_pats));
          score = score + int (length (ep_error_types error_pats))
      in min score 10)"

subsection \<open>Error patterns\<close>

definition classify_expected_error :: "string \<Rightarrow> string" where
  "classify_expected_error expected_error =
     (let error_lower = lower expected_error in
      if py_in ''clause'' error_lower then ''clause_error''
      else if py_in ''directive'' error_lower then ''directive_error''
      else if py_in ''syntax'' error_lower \<or> py_in ''expected'' error_lower then ''syntax_error''
      else if py_in ''semantic'' error_lower \<or> py_in ''type'' error_lower then ''semantic_error''
      else if py_in ''undeclared'' error_lower \<or> py_in ''undefined'' error_lower
      then ''declaration_error''
      else ''general_error'')"

definition extract_regex_pattern :: "string \<Rightarrow> string option" where
  "extract_regex_pattern expected_error =
     (case re_search braces_rx expected_error of
        Some regex_match \<Rightarrow> Some (group0 regex_match)
      | None \<Rightarrow> None)"

definition trigger_labels :: "string \<Rightarrow> string list \<Rightarrow> string list" where
  "trigger_labels trigger_type matches = map (\<lambda>m. trigger_type @ '': '' @ m) matches"

definition extract_error_triggers :: "string \<Rightarrow> string list" where
  "extract_error_triggers content =
     trigger_labels ''openmp_directive'' (findall0 trigger_pragma_rx content)
     @ trigger_labels ''expected_error'' (findall1 trigger_error_rx content)
     @ trigger_labels ''expected_warning'' (findall1 trigger_warning_rx content)
     @ trigger_labels ''error_comment'' (findall0 trigger_error_comment_rx content)
     @ trigger_labels ''fixme_comment'' (findall0 trigger_fixme_rx content)"

definition categorize_error_patterns ::
  "ParseError list \<Rightarrow> string list \<Rightarrow> string \<Rightarrow> error_patterns" where
  "categorize_error_patterns parse_errs expected_errs content =
     (let types = set_update [] (map error_type parse_errs);
          lines = splitlines content;
          expected_pats =
            concat (map (\<lambda>(i, line).
                map (\<lambda>expected.
                      \<lparr>pattern = expected,
                       error_category = classify_expected_error expected,
                       regex_pattern = extract_regex_pattern expected,
                       ep_line_number = i\<rparr>)
                  (filter (\<lambda>expected. py_in expected line) expected_errs))
              (enumerate_from 1 lines))
      in \<lparr>ep_parse_errors = parse_errs, expected_patterns = expected_pats,
          trigger_mechanisms = extract_error_triggers content,
          ep_error_types = types\<rparr>)"

subsection \<open>Expected against actual errors\<close>

text \<open>The dictionary \<open>_map_expected_to_actual_errors\<close> returns, and one entry of its
  \<open>matched_errors\<close>.\<close>

record matched_error =
  me_line :: int
  me_expected :: string
  me_actual :: "string list"

record error_mapping =
  total_expected :: int
  total_actual :: int
  matched_errors :: "matched_error list"
  unmatched_expected :: "string list"
  unexpected_errors :: "string list"

text \<open>\<open>{p.line_number: p for p in expected_patterns}\<close>\<close>

definition expected_by_line ::
  "ExpectedErrorPattern list \<Rightarrow> (int \<times> ExpectedErrorPattern) list" where
  "expected_by_line expected_pats = foldl (\<lambda>d p. dict_set d (ep_line_number p) p) [] expected_pats"

text \<open>The loop that files each parse error under its line.\<close>

definition actual_by_line :: "ParseError list \<Rightarrow> (int \<times> ParseError list) list" where
  "actual_by_line parse_errs =
     foldl (\<lambda>d error.
              (let line = pe_line_number error;
                   d = (if dict_has d line then d else dict_set d line [])
               in dict_set d line (get_list (map_of d line) @ [error])))
       [] parse_errs"

definition map_expected_to_actual_errors ::
  "ExpectedErrorPattern list \<Rightarrow> ParseError list \<Rightarrow> error_mapping" where
  "map_expected_to_actual_errors expected_pats parse_errs =
     (let by_line = expected_by_line expected_pats;
          actual = actual_by_line parse_errs;
          (matched, unmatched) =
            foldl (\<lambda>(matched, unmatched) (line, expected).
                     if dict_has actual line
                     then (matched @ [\<lparr>me_line = line, me_expected = pattern expected,
                                        me_actual = map message (get_list (map_of actual line))\<rparr>],
                           unmatched)
                     else (matched, unmatched @ [pattern expected]))
              ([], []) by_line;
          unexpected =
            foldl (\<lambda>unexpected (line, errors).
                     if \<not> dict_has by_line line then unexpected @ map message errors
                     else unexpected)
              [] actual
      in \<lparr>total_expected = int (length expected_pats),
          total_actual = int (length parse_errs),
          matched_errors = matched,
          unmatched_expected = unmatched,
          unexpected_errors = unexpected\<rparr>)"

text \<open>The mapping as the Python dictionary it is.\<close>

definition matched_error_dict :: "matched_error \<Rightarrow> pyval" where
  "matched_error_dict m =
     PDict [(''line'', PInt (me_line m)), (''expected'', PStr (me_expected m)),
            (''actual'', PList (map PStr (me_actual m)))]"

definition error_mapping_dict :: "error_mapping \<Rightarrow> pyval" where
  "error_mapping_dict m =
     PDict [(''total_expected'', PInt (total_expected m)),
            (''total_actual'', PInt (total_actual m)),
            (''matched_errors'', PList (map matched_error_dict (matched_errors m))),
            (''unmatched_expected'', PList (map PStr (unmatched_expected m))),
            (''unexpected_errors'', PList (map PStr (unexpected_errors m)))]"

subsection \<open>Negative-test characteristics\<close>

definition openmp_constructs :: "string list" where
  "openmp_constructs = [''parallel'', ''for'', ''sections'', ''single'', ''task'', ''target'',
     ''teams'', ''distribute'', ''simd'', ''atomic'', ''critical'', ''barrier'']"

definition openmp_clauses :: "string list" where
  "openmp_clauses = [''private'', ''shared'', ''reduction'', ''schedule'', ''collapse'',
     ''nowait'', ''ordered'', ''default'', ''copyin'', ''copyprivate'']"

definition identify_error_coverage_areas :: "(string \<Rightarrow> nat) \<Rightarrow> string \<Rightarrow> string list" where
  "identify_error_coverage_areas h content =
     (let content_lower = lower content;
          coverage_areas =
            foldl (\<lambda>areas construct.
                     if py_in construct content_lower then set_add areas construct else areas)
              [] openmp_constructs;
          coverage_areas =
            foldl (\<lambda>areas clause.
                     if py_in clause content_lower then set_add areas (clause @ ''_clause'')
                     else areas)
              coverage_areas openmp_clauses
      in list_of_set h coverage_areas)"

definition extract_negative_test_characteristics ::
  "(string \<Rightarrow> nat) \<Rightarrow> path \<Rightarrow> string \<Rightarrow> error_patterns \<Rightarrow> NegativeTestCharacteristics" where
  "extract_negative_test_characteristics h fp content error_pats =
     (let is_negative = is_negative_test_case fp content;
          characteristics =
            \<lparr>is_negative_test = is_negative,
             error_testing_strategy = None,
             expected_vs_actual_errors = PDict [],
             error_coverage_areas = [],
             error_trigger_count = int (length (trigger_mechanisms error_pats))\<rparr>
      in
      if is_negative then
        (let filename = lower (path_name fp) in
         characteristics
           \<lparr>error_testing_strategy :=
              Some (if py_in ''messages'' filename then ''error_message_validation''
                    else if py_in ''syntax'' filename then ''syntax_validation''
                    else if py_in ''semantic'' filename then ''semantic_validation''
                    else ''general_error_testing''),
            expected_vs_actual_errors :=
              error_mapping_dict
                (map_expected_to_actual_errors (expected_patterns error_pats)
                   (ep_parse_errors error_pats)),
            error_coverage_areas := identify_error_coverage_areas h content\<rparr>)
      else characteristics)"

subsection \<open>One file\<close>

text \<open>The record of one file, \<open>TestPattern\<close> of \<open>database/models.py\<close>.\<close>

record TestPattern =
  file_path :: string
  file_name :: string
  file_size :: int
  compiler_stage :: CompilerStage
  run_commands :: "string list"
  compiler_flags :: "string list"
  openmp_directives :: "OpenMPDirective list"
  openmp_version :: "string option"
  test_category :: TestCategory
  check_patterns :: "string list"
  expected_errors :: "string list"
  expected_warnings :: "string list"
  ast_nodes :: "ASTNode list"
  function_declarations :: "string list"
  variable_declarations :: "string list"
  ir_patterns :: "string list"
  runtime_calls :: "string list"
  parse_errors :: "ParseError list"
  expected_error_patterns :: "ExpectedErrorPattern list"
  negative_test_characteristics :: NegativeTestCharacteristics
  error_trigger_mechanisms :: "string list"
  error_types :: "string list"
  complexity_score :: int
  line_count :: int
  created_timestamp :: string

text \<open>
  \<open>process_test_file\<close>. The result is \<open>None\<close> where the code returns \<open>None\<close>: the file does
  not exist, reading it fails, or \<open>not content\<close> holds, which is also the case for the empty
  string. Nothing after these checks raises: the parser's failures end inside
  \<open>extract_patterns\<close>, which then returns \<open>{}\<close>.
\<close>

definition process_test_file :: "env \<Rightarrow> path \<Rightarrow> TestPattern option" where
  "process_test_file e fp =
     (case fs e (path_str fp) of
        None \<Rightarrow> None
      | Some f \<Rightarrow>
          (case read_file_content f of
             None \<Rightarrow> None
           | Some content \<Rightarrow>
               if content = [] then None
               else
                 (let info = extract_file_info f content;
                      run_cmds = extract_run_commands content;
                      flags = extract_compiler_flags (str_hash e) run_cmds;
                      stage = determine_compiler_stage run_cmds content;
                      directives = extract_openmp_directives content;
                      version = extract_openmp_version content run_cmds;
                      checks = extract_check_patterns content;
                      expected_errs = extract_expected_errors content;
                      expected_warns = extract_expected_warnings content;
                      ast = extract_patterns e (path_str fp);
                      error_pats =
                        categorize_error_patterns (get_list (ap_parse_errors ast))
                          expected_errs content;
                      negative_test_info =
                        extract_negative_test_characteristics (str_hash e) fp content error_pats;
                      ir = extract_ir_patterns checks;
                      calls = extract_runtime_calls (str_hash e) checks;
                      category = categorize_test (path_name fp) directives content;
                      score =
                        calculate_complexity_score directives checks expected_errs ast error_pats
                  in Some
                    \<lparr>file_path = path_str fp,
                     file_name = path_name fp,
                     file_size = info_size info,
                     compiler_stage = stage,
                     run_commands = run_cmds,
                     compiler_flags = flags,
                     openmp_directives = directives,
                     openmp_version = version,
                     test_category = category,
                     check_patterns = checks,
                     expected_errors = expected_errs,
                     expected_warnings = expected_warns,
                     ast_nodes = get_list (ap_ast_nodes ast),
                     function_declarations =
                       map (py_str e) (get_list (ap_function_declarations ast)),
                     variable_declarations =
                       map (py_str e) (get_list (ap_variable_declarations ast)),
                     ir_patterns = ir,
                     runtime_calls = calls,
                     parse_errors = ep_parse_errors error_pats,
                     expected_error_patterns = expected_patterns error_pats,
                     negative_test_characteristics = negative_test_info,
                     error_trigger_mechanisms = trigger_mechanisms error_pats,
                     error_types = list_of_set (str_hash e) (ep_error_types error_pats),
                     complexity_score = score,
                     line_count = info_line_count info,
                     created_timestamp = now_isoformat e\<rparr>)))"

text \<open>The value the variable \<open>error_patterns\<close> of \<open>process_test_file\<close> takes for a file with
  the text \<open>content\<close>.\<close>

definition error_patterns_of :: "env \<Rightarrow> path \<Rightarrow> string \<Rightarrow> error_patterns" where
  "error_patterns_of e fp content =
     categorize_error_patterns (get_list (ap_parse_errors (extract_patterns e (path_str fp))))
       (extract_expected_errors content) content"

section \<open>Serialization (\<open>TestPattern.to_dict\<close> and \<open>TestPattern.from_dict\<close>)\<close>

subsection \<open>The values of the enumerations\<close>

fun CompilerStage_value :: "CompilerStage \<Rightarrow> string" where
  "CompilerStage_value PARSE = ''parse''"
| "CompilerStage_value SEMA = ''sema''"
| "CompilerStage_value CODEGEN = ''codegen''"
| "CompilerStage_value AST_PRINT = ''ast_print''"
| "CompilerStage_value UNKNOWN = ''unknown''"

fun TestCategory_value :: "TestCategory \<Rightarrow> string" where
  "TestCategory_value PARALLEL = ''parallel''"
| "TestCategory_value WORKSHARING = ''worksharing''"
| "TestCategory_value TARGET = ''target''"
| "TestCategory_value SYNCHRONIZATION = ''synchronization''"
| "TestCategory_value SIMD = ''simd''"
| "TestCategory_value TASK = ''task''"
| "TestCategory_value GENERAL = ''general''"

text \<open>\<open>CompilerStage(x)\<close>: the member with the value \<open>x\<close>, or \<open>x\<close> itself when it is a member
  already; \<open>None\<close> is the \<open>ValueError\<close> of any other argument.\<close>

definition CompilerStage_call :: "pyval \<Rightarrow> CompilerStage option" where
  "CompilerStage_call x =
     (case x of
        PStr v \<Rightarrow> List.find (\<lambda>m. CompilerStage_value m = v) [PARSE, SEMA, CODEGEN, AST_PRINT, UNKNOWN]
      | PStage m \<Rightarrow> Some m
      | _ \<Rightarrow> None)"

definition TestCategory_call :: "pyval \<Rightarrow> TestCategory option" where
  "TestCategory_call x =
     (case x of
        PStr v \<Rightarrow>
          List.find (\<lambda>m. TestCategory_value m = v)
            [PARALLEL, WORKSHARING, TARGET, SYNCHRONIZATION, SIMD, TASK, GENERAL]
      | PCategory m \<Rightarrow> Some m
      | _ \<Rightarrow> None)"

subsection \<open>\<open>dataclasses.asdict\<close>\<close>

text \<open>
  \<open>asdict\<close> turns an instance into the dictionary of its fields, in the order of their
  declaration, and does the same to the instances inside its lists. Strings, numbers,
  \<open>None\<close>, enumeration members and plain dictionaries are copied, and a copy is the same
  value.
\<close>

definition opt_str :: "string option \<Rightarrow> pyval" where
  "opt_str v = (case v of None \<Rightarrow> PNone | Some s \<Rightarrow> PStr s)"

definition asdict_OpenMPDirective :: "OpenMPDirective \<Rightarrow> pyval" where
  "asdict_OpenMPDirective d =
     PDict [(''name'', PStr (name d)),
            (''clauses'', PList (map PStr (clauses d))),
            (''line_number'', PInt (line_number d)),
            (''column_number'', PInt (column_number d)),
            (''full_text'', PStr (full_text d))]"

definition asdict_ASTNode :: "ASTNode \<Rightarrow> pyval" where
  "asdict_ASTNode n =
     PDict [(''node_type'', PStr (node_type n)),
            (''spelling'', PStr (spelling n)),
            (''location'', PStr (location n)),
            (''children_count'', PInt (children_count n)),
            (''has_openmp'', PBool (has_openmp n))]"

definition asdict_ParseError :: "ParseError \<Rightarrow> pyval" where
  "asdict_ParseError e =
     PDict [(''error_type'', PStr (error_type e)),
            (''message'', PStr (message e)),
            (''line_number'', PInt (pe_line_number e)),
            (''column_number'', PInt (pe_column_number e)),
            (''severity'', PStr (severity e))]"

definition asdict_ExpectedErrorPattern :: "ExpectedErrorPattern \<Rightarrow> pyval" where
  "asdict_ExpectedErrorPattern p =
     PDict [(''pattern'', PStr (pattern p)),
            (''error_category'', PStr (error_category p)),
            (''regex_pattern'', opt_str (regex_pattern p)),
            (''line_number'', PInt (ep_line_number p))]"

definition asdict_NegativeTestCharacteristics :: "NegativeTestCharacteristics \<Rightarrow> pyval" where
  "asdict_NegativeTestCharacteristics c =
     PDict [(''is_negative_test'', PBool (is_negative_test c)),
            (''error_testing_strategy'', opt_str (error_testing_strategy c)),
            (''expected_vs_actual_errors'', expected_vs_actual_errors c),
            (''error_coverage_areas'', PList (map PStr (error_coverage_areas c))),
            (''error_trigger_count'', PInt (error_trigger_count c))]"

definition asdict :: "TestPattern \<Rightarrow> (string \<times> pyval) list" where
  "asdict r =
     [(''file_path'', PStr (file_path r)),
      (''file_name'', PStr (file_name r)),
      (''file_size'', PInt (file_size r)),
      (''compiler_stage'', PStage (compiler_stage r)),
      (''run_commands'', PList (map PStr (run_commands r))),
      (''compiler_flags'', PList (map PStr (compiler_flags r))),
      (''openmp_directives'', PList (map asdict_OpenMPDirective (openmp_directives r))),
      (''openmp_version'', opt_str (openmp_version r)),
      (''test_category'', PCategory (test_category r)),
      (''check_patterns'', PList (map PStr (check_patterns r))),
      (''expected_errors'', PList (map PStr (expected_errors r))),
      (''expected_warnings'', PList (map PStr (expected_warnings r))),
      (''ast_nodes'', PList (map asdict_ASTNode (ast_nodes r))),
      (''function_declarations'', PList (map PStr (function_declarations r))),
      (''variable_declarations'', PList (map PStr (variable_declarations r))),
      (''ir_patterns'', PList (map PStr (ir_patterns r))),
      (''runtime_calls'', PList (map PStr (runtime_calls r))),
      (''parse_errors'', PList (map asdict_ParseError (parse_errors r))),
      (''expected_error_patterns'',
         PList (map asdict_ExpectedErrorPattern (expected_error_patterns r))),
      (''negative_test_characteristics'',
         asdict_NegativeTestCharacteristics (negative_test_characteristics r)),
      (''error_trigger_mechanisms'', PList (map PStr (error_trigger_mechanisms r))),
      (''error_types'', PList (map PStr (error_types r))),
      (''complexity_score'', PInt (complexity_score r)),
      (''line_count'', PInt (line_count r)),
      (''created_timestamp'', PStr (created_timestamp r))]"

subsection \<open>\<open>to_dict\<close>\<close>

definition to_dict :: "TestPattern \<Rightarrow> (string \<times> pyval) list" where
  "to_dict r =
     (let result = asdict r;
          result = dict_set result ''compiler_stage'' (PStr (CompilerStage_value (compiler_stage r)));
          result = dict_set result ''test_category'' (PStr (TestCategory_value (test_category r)))
      in result)"

subsection \<open>Building an instance from keyword arguments\<close>

text \<open>
  \<open>C(**d)\<close> for a dataclass \<open>C\<close>: every key of \<open>d\<close> has to be a field of \<open>C\<close> and every field
  has to be among the keys, else the call raises \<open>TypeError\<close>. Python stores the values as
  they come. The records of the model fix the type of each field, so a value of another
  type has no record to go into: for it the result is \<open>None\<close> as well.
\<close>

definition as_str :: "pyval \<Rightarrow> string option" where
  "as_str v = (case v of PStr s \<Rightarrow> Some s | _ \<Rightarrow> None)"

definition as_int :: "pyval \<Rightarrow> int option" where
  "as_int v = (case v of PInt i \<Rightarrow> Some i | _ \<Rightarrow> None)"

definition as_bool :: "pyval \<Rightarrow> bool option" where
  "as_bool v = (case v of PBool b \<Rightarrow> Some b | _ \<Rightarrow> None)"

definition as_opt_str :: "pyval \<Rightarrow> string option option" where
  "as_opt_str v = (case v of PNone \<Rightarrow> Some None | PStr s \<Rightarrow> Some (Some s) | _ \<Rightarrow> None)"

definition as_list :: "pyval \<Rightarrow> pyval list option" where
  "as_list v = (case v of PList xs \<Rightarrow> Some xs | _ \<Rightarrow> None)"

definition as_str_list :: "pyval \<Rightarrow> string list option" where
  "as_str_list v = (case v of PList xs \<Rightarrow> those (map as_str xs) | _ \<Rightarrow> None)"

definition only_keys :: "string list \<Rightarrow> (string \<times> pyval) list \<Rightarrow> bool" where
  "only_keys names d = list_all (\<lambda>(k, v). k \<in> set names) d"

definition OpenMPDirective_kwargs :: "(string \<times> pyval) list \<Rightarrow> OpenMPDirective option" where
  "OpenMPDirective_kwargs d =
     (if \<not> only_keys [''name'', ''clauses'', ''line_number'', ''column_number'', ''full_text''] d
      then None
      else do {
        n \<leftarrow> Option.bind (map_of d ''name'') as_str;
        c \<leftarrow> Option.bind (map_of d ''clauses'') as_str_list;
        l \<leftarrow> Option.bind (map_of d ''line_number'') as_int;
        k \<leftarrow> Option.bind (map_of d ''column_number'') as_int;
        t \<leftarrow> Option.bind (map_of d ''full_text'') as_str;
        Some \<lparr>name = n, clauses = c, line_number = l, column_number = k, full_text = t\<rparr>
      })"

definition ASTNode_kwargs :: "(string \<times> pyval) list \<Rightarrow> ASTNode option" where
  "ASTNode_kwargs d =
     (if \<not> only_keys [''node_type'', ''spelling'', ''location'', ''children_count'',
                        ''has_openmp''] d
      then None
      else do {
        t \<leftarrow> Option.bind (map_of d ''node_type'') as_str;
        s \<leftarrow> Option.bind (map_of d ''spelling'') as_str;
        l \<leftarrow> Option.bind (map_of d ''location'') as_str;
        c \<leftarrow> Option.bind (map_of d ''children_count'') as_int;
        h \<leftarrow> Option.bind (map_of d ''has_openmp'') as_bool;
        Some \<lparr>node_type = t, spelling = s, location = l, children_count = c, has_openmp = h\<rparr>
      })"

definition ParseError_kwargs :: "(string \<times> pyval) list \<Rightarrow> ParseError option" where
  "ParseError_kwargs d =
     (if \<not> only_keys [''error_type'', ''message'', ''line_number'', ''column_number'',
                        ''severity''] d
      then None
      else do {
        t \<leftarrow> Option.bind (map_of d ''error_type'') as_str;
        m \<leftarrow> Option.bind (map_of d ''message'') as_str;
        l \<leftarrow> Option.bind (map_of d ''line_number'') as_int;
        c \<leftarrow> Option.bind (map_of d ''column_number'') as_int;
        s \<leftarrow> Option.bind (map_of d ''severity'') as_str;
        Some \<lparr>error_type = t, message = m, pe_line_number = l, pe_column_number = c,
              severity = s\<rparr>
      })"

definition ExpectedErrorPattern_kwargs ::
  "(string \<times> pyval) list \<Rightarrow> ExpectedErrorPattern option" where
  "ExpectedErrorPattern_kwargs d =
     (if \<not> only_keys [''pattern'', ''error_category'', ''regex_pattern'', ''line_number''] d
      then None
      else do {
        p \<leftarrow> Option.bind (map_of d ''pattern'') as_str;
        c \<leftarrow> Option.bind (map_of d ''error_category'') as_str;
        r \<leftarrow> Option.bind (map_of d ''regex_pattern'') as_opt_str;
        l \<leftarrow> Option.bind (map_of d ''line_number'') as_int;
        Some \<lparr>pattern = p, error_category = c, regex_pattern = r, ep_line_number = l\<rparr>
      })"

definition NegativeTestCharacteristics_kwargs ::
  "(string \<times> pyval) list \<Rightarrow> NegativeTestCharacteristics option" where
  "NegativeTestCharacteristics_kwargs d =
     (if \<not> only_keys [''is_negative_test'', ''error_testing_strategy'',
                        ''expected_vs_actual_errors'', ''error_coverage_areas'',
                        ''error_trigger_count''] d
      then None
      else do {
        n \<leftarrow> Option.bind (map_of d ''is_negative_test'') as_bool;
        s \<leftarrow> Option.bind (map_of d ''error_testing_strategy'') as_opt_str;
        m \<leftarrow> map_of d ''expected_vs_actual_errors'';
        a \<leftarrow> Option.bind (map_of d ''error_coverage_areas'') as_str_list;
        c \<leftarrow> Option.bind (map_of d ''error_trigger_count'') as_int;
        Some \<lparr>is_negative_test = n, error_testing_strategy = s,
              expected_vs_actual_errors = m, error_coverage_areas = a,
              error_trigger_count = c\<rparr>
      })"

subsection \<open>\<open>from_dict\<close>\<close>

text \<open>
  The list comprehensions \<open>[C(**d) if isinstance(d, dict) else d for d in data[key]]\<close>:
  every dictionary of the list becomes an instance. An element that is no dictionary is
  kept as it is by the code; it is no instance of \<open>C\<close> either, so the list would not be a
  value of the field's type and the result is \<open>None\<close>.
\<close>

definition instances :: "((string \<times> pyval) list \<Rightarrow> 'a option) \<Rightarrow> pyval \<Rightarrow> 'a list option" where
  "instances kwargs v =
     (case v of
        PList xs \<Rightarrow> those (map (\<lambda>d. case d of PDict kv \<Rightarrow> kwargs kv | _ \<Rightarrow> None) xs)
      | _ \<Rightarrow> None)"

definition test_pattern_field_names :: "string list" where
  "test_pattern_field_names =
     [''file_path'', ''file_name'', ''file_size'', ''compiler_stage'', ''run_commands'',
      ''compiler_flags'', ''openmp_directives'', ''openmp_version'', ''test_category'',
      ''check_patterns'', ''expected_errors'', ''expected_warnings'', ''ast_nodes'',
      ''function_declarations'', ''variable_declarations'', ''ir_patterns'', ''runtime_calls'',
      ''parse_errors'', ''expected_error_patterns'', ''negative_test_characteristics'',
      ''error_trigger_mechanisms'', ''error_types'', ''complexity_score'', ''line_count'',
      ''created_timestamp'']"

text \<open>
  \<open>from_dict\<close>: the two enumeration members, the four lists of instances and the
  negative-test characteristics are rebuilt from \<open>data\<close> in the order of the code, a missing
  key being its \<open>KeyError\<close>; then \<open>cls(**data)\<close> takes the remaining fields from \<open>data\<close> as
  they are.
\<close>

definition from_dict :: "(string \<times> pyval) list \<Rightarrow> TestPattern option" where
  "from_dict data =
     do {
       stage \<leftarrow> Option.bind (map_of data ''compiler_stage'') CompilerStage_call;
       category \<leftarrow> Option.bind (map_of data ''test_category'') TestCategory_call;
       directives \<leftarrow>
         Option.bind (map_of data ''openmp_directives'') (instances OpenMPDirective_kwargs);
       nodes \<leftarrow> Option.bind (map_of data ''ast_nodes'') (instances ASTNode_kwargs);
       errors \<leftarrow> Option.bind (map_of data ''parse_errors'') (instances ParseError_kwargs);
       expected \<leftarrow>
         Option.bind (map_of data ''expected_error_patterns'')
           (instances ExpectedErrorPattern_kwargs);
       negative \<leftarrow>
         Option.bind (map_of data ''negative_test_characteristics'')
           (\<lambda>v. case v of PDict kv \<Rightarrow> NegativeTestCharacteristics_kwargs kv | _ \<Rightarrow> None);
       _ \<leftarrow> (if only_keys test_pattern_field_names data then Some () else None);
       fpath \<leftarrow> Option.bind (map_of data ''file_path'') as_str;
       fname \<leftarrow> Option.bind (map_of data ''file_name'') as_str;
       fsize \<leftarrow> Option.bind (map_of data ''file_size'') as_int;
       runs \<leftarrow> Option.bind (map_of data ''run_commands'') as_str_list;
       flags \<leftarrow> Option.bind (map_of data ''compiler_flags'') as_str_list;
       version \<leftarrow> Option.bind (map_of data ''openmp_version'') as_opt_str;
       checks \<leftarrow> Option.bind (map_of data ''check_patterns'') as_str_list;
       exp_errors \<leftarrow> Option.bind (map_of data ''expected_errors'') as_str_list;
       exp_warnings \<leftarrow> Option.bind (map_of data ''expected_warnings'') as_str_list;
       fdecls \<leftarrow> Option.bind (map_of data ''function_declarations'') as_str_list;
       vdecls \<leftarrow> Option.bind (map_of data ''variable_declarations'') as_str_list;
       ir \<leftarrow> Option.bind (map_of data ''ir_patterns'') as_str_list;
       calls \<leftarrow> Option.bind (map_of data ''runtime_calls'') as_str_list;
       triggers \<leftarrow> Option.bind (map_of data ''error_trigger_mechanisms'') as_str_list;
       types \<leftarrow> Option.bind (map_of data ''error_types'') as_str_list;
       score \<leftarrow> Option.bind (map_of data ''complexity_score'') as_int;
       lines \<leftarrow> Option.bind (map_of data ''line_count'') as_int;
       stamp \<leftarrow> Option.bind (map_of data ''created_timestamp'') as_str;
       Some \<lparr>file_path = fpath, file_name = fname, file_size = fsize,
             compiler_stage = stage, run_commands = runs, compiler_flags = flags,
             openmp_directives = directives, openmp_version = version,
             test_category = category, check_patterns = checks,
             expected_errors = exp_errors, expected_warnings = exp_warnings,
             ast_nodes = nodes, function_declarations = fdecls,
             variable_declarations = vdecls, ir_patterns = ir, runtime_calls = calls,
             parse_errors = errors, expected_error_patterns = expected,
             negative_test_characteristics = negative,
             error_trigger_mechanisms = triggers, error_types = types,
             complexity_score = score, line_count = lines, created_timestamp = stamp\<rparr>
     }"

section \<open>The categorizer as the specification words it\<close>

text \<open>A rule list evaluated in order: the first rule whose predicate holds gives the
  category, and \<open>GENERAL\<close> is the fallback.\<close>

fun first_match :: "(TestCategory \<times> bool) list \<Rightarrow> TestCategory" where
  "first_match [] = GENERAL"
| "first_match ((c, b) # rules) = (if b then c else first_match rules)"

text \<open>The predicate the specification gives every category: one of the keywords occurs in
  the lower-cased file name, in a lower-cased directive name or in the lower-cased body.\<close>

definition keyword_in_signals :: "string list \<Rightarrow> string \<Rightarrow> string list \<Rightarrow> string \<Rightarrow> bool" where
  "keyword_in_signals keywords filename_lower directive_names content_lower =
     list_ex (\<lambda>keyword. py_in keyword filename_lower
                \<or> list_ex (\<lambda>n. py_in keyword n) directive_names
                \<or> py_in keyword content_lower) keywords"

definition categorize_spec :: "string \<Rightarrow> OpenMPDirective list \<Rightarrow> string \<Rightarrow> TestCategory" where
  "categorize_spec filename directives content =
     (let f = lower filename;
          ns = map (\<lambda>d. lower (name d)) directives;
          b = lower content
      in first_match
           [(PARALLEL, keyword_in_signals [''parallel''] f ns b),
            (WORKSHARING, keyword_in_signals [''for'', ''sections'', ''single''] f ns b),
            (TARGET, keyword_in_signals [''target''] f ns b),
            (SYNCHRONIZATION, keyword_in_signals [''atomic'', ''critical'', ''barrier''] f ns b),
            (SIMD, keyword_in_signals [''simd''] f ns b),
            (TASK, keyword_in_signals [''task''] f ns b)])"

section \<open>Sample inputs\<close>

definition two_line_source :: string where
  "two_line_source = ''int x;'' @ [NL] @ ''  #pragma omp parallel private(x)''"

definition tok :: "string \<Rightarrow> int \<Rightarrow> int \<Rightarrow> token" where
  "tok s l c = \<lparr>tok_spelling = s, tok_location = \<lparr>line = l, column = c\<rparr>\<rparr>"

definition pragma_tokens_at_3_5 :: "token list" where
  "pragma_tokens_at_3_5 =
     [tok ''#'' 3 5, tok ''pragma'' 3 6, tok ''omp'' 3 13, tok ''parallel'' 3 17]"

definition messages_c :: path where
  "messages_c = \<lparr>path_str = ''test/OpenMP/messages.c'', path_name = ''messages.c''\<rparr>"

definition loop_c :: path where
  "loop_c = \<lparr>path_str = ''test/OpenMP/loop.c'', path_name = ''loop.c''\<rparr>"

text \<open>A parser that fails on every file: \<open>extract_patterns\<close> returns \<open>{}\<close>.\<close>

definition failing_parser :: "string \<Rightarrow> ast_patterns" where
  "failing_parser p = empty_ast_patterns"

text \<open>A file system with one file at the path of \<open>loop_c\<close>, and a run in it.\<close>

definition one_file :: "string \<Rightarrow> string \<Rightarrow> file_entry option" where
  "one_file content p =
     (if p = path_str loop_c
      then Some \<lparr>st_size = int (length content), read_text = Some content\<rparr> else None)"

definition run_env :: "string \<Rightarrow> (string \<Rightarrow> nat) \<Rightarrow> string \<Rightarrow> env" where
  "run_env content h now =
     \<lparr>fs = one_file content, extract_patterns = failing_parser, py_str = (\<lambda>v. []),
      now_isoformat = now, str_hash = h\<rparr>"

definition flags_source :: string where
  "flags_source = ''// RUN: cc -a -bb''"

text \<open>Two runs on the same one-line file, in processes with different string hashes and
  at different times.\<close>

definition first_run :: env where
  "first_run = run_env flags_source length ''2024-01-01T00:00:00''"

definition second_run :: env where
  "second_run = run_env flags_source (\<lambda>s. 10 - length s) ''2024-01-02T00:00:00''"

text \<open>Two expected patterns on line 3 and one on line 5; parse errors on lines 3 and 7.\<close>

definition expected_on_lines_3_3_5 :: "ExpectedErrorPattern list" where
  "expected_on_lines_3_3_5 =
     [\<lparr>pattern = ''first'', error_category = ''general'', regex_pattern = None,
       ep_line_number = 3\<rparr>,
      \<lparr>pattern = ''second'', error_category = ''general'', regex_pattern = None,
       ep_line_number = 3\<rparr>,
      \<lparr>pattern = ''third'', error_category = ''general'', regex_pattern = None,
       ep_line_number = 5\<rparr>]"

definition errors_on_lines_3_7 :: "ParseError list" where
  "errors_on_lines_3_7 =
     [\<lparr>error_type = ''error'', message = ''on line 3'', pe_line_number = 3,
       pe_column_number = 1, severity = ''error''\<rparr>,
      \<lparr>error_type = ''error'', message = ''on line 7'', pe_line_number = 7,
       pe_column_number = 1, severity = ''error''\<rparr>]"


section \<open>Properties of directive extraction\<close>

subsection \<open>Numbered lines\<close>

lemma enumerate_from_fst: "map fst (enumerate_from i xs) = map (\<lambda>k. i + int k) [0..<length xs]"
proof (induction xs arbitrary: i)
  case Nil
  then show ?case by simp
next
  case (Cons x xs)
  have "map (\<lambda>k. i + int k) [0..<Suc (length xs)] = i # map (\<lambda>k. i + 1 + int k) [0..<length xs]"
    by (simp add: upt_conv_Cons map_Suc_upt[symmetric] del: upt_Suc)
  with Cons show ?case by simp
qed

lemma enumerate_from_set:
  "(n, l) \<in> set (enumerate_from i xs) \<Longrightarrow> i \<le> n \<and> n < i + int (length xs) \<and> l = xs ! nat (n - i)"
proof (induction xs arbitrary: i)
  case Nil
  then show ?case by simp
next
  case (Cons x xs)
  from Cons.prems have "(n, l) = (i, x) \<or> (n, l) \<in> set (enumerate_from (i + 1) xs)" by simp
  then show ?case
  proof
    assume "(n, l) = (i, x)"
    then show ?thesis by simp
  next
    assume "(n, l) \<in> set (enumerate_from (i + 1) xs)"
    from Cons.IH[OF this] have h: "i + 1 \<le> n" "n < i + 1 + int (length xs)" "l = xs ! nat (n - (i + 1))"
      by simp_all
    have "nat (n - i) = Suc (nat (n - (i + 1)))" using h(1) by simp
    then show ?thesis using h by simp
  qed
qed

lemma enumerate_from_sorted: "sorted_wrt (<) (map fst (enumerate_from i xs))"
proof (induction xs arbitrary: i)
  case Nil
  then show ?case by simp
next
  case (Cons x xs)
  have "\<forall>n \<in> set (map fst (enumerate_from (i + 1) xs)). i < n"
    using enumerate_from_set[of _ _ "i + 1" xs] by fastforce
  with Cons show ?case by simp
qed

lemma map_filter_sorted:
  assumes "\<And>x d. f x = Some d \<Longrightarrow> g d = fst x"
  shows "sorted_wrt (<) (map fst xs) \<Longrightarrow> sorted_wrt (<) (map g (List.map_filter f xs))"
proof (induction xs)
  case Nil
  then show ?case by (simp add: List.map_filter_simps)
next
  case (Cons x xs)
  have sub: "\<forall>d \<in> set (List.map_filter f xs). \<exists>y \<in> set xs. g d = fst y"
    using assms by (force simp: List.map_filter_def)
  show ?case
  proof (cases "f x")
    case None
    with Cons show ?thesis by (simp add: List.map_filter_simps)
  next
    case (Some d)
    have "\<forall>y \<in> set (map g (List.map_filter f xs)). fst x < y"
      using sub Cons.prems by fastforce
    with Cons assms[OF Some] Some show ?thesis
      by (simp add: List.map_filter_simps)
  qed
qed

lemma line_directive_Some:
  "line_directive (n, l) = Some d \<Longrightarrow>
     line_number d = n \<and> full_text d = strip l \<and> column_number d = py_find l ''#pragma''"
  by (auto simp: line_directive_def Let_def split: option.splits)

lemma set_map_filter: "d \<in> set (List.map_filter f xs) \<Longrightarrow> \<exists>x \<in> set xs. f x = Some d"
  by (auto simp: List.map_filter_def)

subsection \<open>The text path keeps the source order\<close>

text \<open>
  Claim C9. For every input text, the directives of the text path come in top-to-bottom
  source order (their line numbers increase strictly along the result), and every line
  number \<open>n\<close> is a valid 1-based index into the lines of the input:
  \<open>1 \<le> n \<le> len(content.splitlines())\<close>; the directive's text is the stripped line \<open>n\<close>.
\<close>

theorem directives_in_source_order:
  "sorted_wrt (<) (map line_number (extract_openmp_directives content)) \<and>
   (\<forall>d \<in> set (extract_openmp_directives content).
      1 \<le> line_number d \<and> line_number d \<le> int (length (splitlines content)) \<and>
      full_text d = strip (splitlines content ! nat (line_number d - 1)))"
proof (intro conjI ballI)
  have "\<And>x d. line_directive x = Some d \<Longrightarrow> line_number d = fst x"
    using line_directive_Some by (metis prod.collapse)
  then show "sorted_wrt (<) (map line_number (extract_openmp_directives content))"
    unfolding extract_openmp_directives_def
    using enumerate_from_sorted by (rule map_filter_sorted)
next
  fix d assume "d \<in> set (extract_openmp_directives content)"
  then obtain n l where nl: "(n, l) \<in> set (enumerate_from 1 (splitlines content))"
      and d: "line_directive (n, l) = Some d"
    unfolding extract_openmp_directives_def by (metis set_map_filter prod.collapse)
  from enumerate_from_set[OF nl] line_directive_Some[OF d]
  show "1 \<le> line_number d" "line_number d \<le> int (length (splitlines content))"
    "full_text d = strip (splitlines content ! nat (line_number d - 1))"
    by simp_all
qed

text \<open>The theorem at a two-line input whose second line holds a directive.\<close>

theorem directives_in_source_order_witness:
  "extract_openmp_directives two_line_source \<noteq> [] \<and>
   sorted_wrt (<) (map line_number (extract_openmp_directives two_line_source)) \<and>
   1 \<le> line_number (hd (extract_openmp_directives two_line_source)) \<and>
   line_number (hd (extract_openmp_directives two_line_source))
     \<le> int (length (splitlines two_line_source)) \<and>
   full_text (hd (extract_openmp_directives two_line_source)) =
     strip (splitlines two_line_source !
       nat (line_number (hd (extract_openmp_directives two_line_source)) - 1))"
proof -
  have ne: "extract_openmp_directives two_line_source \<noteq> []"
    by code_simp
  then have "hd (extract_openmp_directives two_line_source)
      \<in> set (extract_openmp_directives two_line_source)"
    by simp
  with directives_in_source_order[of two_line_source] ne show ?thesis
    by blast
qed

subsection \<open>A pragma without a name\<close>

text \<open>
  Claim C4. A line that consists of \<open>#pragma omp\<close>, with no token after \<open>omp\<close>, should
  yield a directive whose name is the empty string on both paths. The token path does:
  the tokens \<open>#\<close>, \<open>pragma\<close>, \<open>omp\<close> give one directive named \<open>""\<close>. The text path returns no
  directive for the same line: its pattern asks for white space and one more character
  after \<open>omp\<close>.
\<close>

theorem bare_pragma_dropped_by_text_path:
  "extract_openmp_directives ''#pragma omp'' = [] \<and>
   map name (extract_openmp_pragmas [tok ''#'' 1 1, tok ''pragma'' 1 2, tok ''omp'' 1 9]) = ['''']"
  by code_simp

subsection \<open>The stored column\<close>

lemma star_greedy_sound:
  "star_greedy p s k = Some r \<Longrightarrow>
     \<exists>ws rest. s = ws @ rest \<and> (\<forall>c \<in> set ws. p c) \<and> k rest = Some r"
proof (induction s)
  case Nil
  then show ?case by simp
next
  case (Cons c cs)
  show ?case
  proof (cases "p c \<and> star_greedy p cs k \<noteq> None")
    case True
    with Cons.prems have "star_greedy p cs k = Some r" by auto
    from Cons.IH[OF this] obtain ws rest
      where "cs = ws @ rest" "\<forall>c \<in> set ws. p c" "k rest = Some r" by blast
    with True have "c # cs = (c # ws) @ rest \<and> (\<forall>x \<in> set (c # ws). p x) \<and> k rest = Some r"
      by simp
    then show ?thesis by blast
  next
    case False
    with Cons.prems have "k (c # cs) = Some r" by (auto split: if_splits option.splits)
    then have "c # cs = [] @ (c # cs) \<and> (\<forall>x \<in> set ([]::string). p x) \<and> k (c # cs) = Some r"
      by simp
    then show ?thesis by blast
  qed
qed

lemma pragma_rx_shape:
  assumes "re_match pragma_rx l = Some m"
  shows "\<exists>ws rest. l = ws @ ''#pragma'' @ rest \<and> (\<forall>c \<in> set ws. py_isspace c)"
proof -
  from assms obtain r where
    "star_greedy py_isspace l (\<lambda>s'. rmatch (seqs [Lit ''#pragma'', Plus py_isspace, Lit ''omp'',
                     Plus py_isspace, Group (Plus dot)]) s' (\<lambda>s'. Some (s', None))) = Some r"
    by (auto simp: re_match_def pragma_rx_def split: option.splits)
  from star_greedy_sound[OF this] obtain ws rest where
    l: "l = ws @ rest" and ws: "\<forall>c \<in> set ws. py_isspace c" and
    k: "rmatch (seqs [Lit ''#pragma'', Plus py_isspace, Lit ''omp'',
                     Plus py_isspace, Group (Plus dot)]) rest (\<lambda>s'. Some (s', None)) = Some r"
    by blast
  from k have "prefix ''#pragma'' rest" by (simp split: if_splits)
  then obtain rest' where "rest = ''#pragma'' @ rest'" by (auto simp: prefix_def)
  with l ws show ?thesis by blast
qed

lemma find_from_skip:
  assumes "sub \<noteq> []" "\<forall>c \<in> set ws. c \<noteq> hd sub"
  shows "find_from i sub (ws @ sub @ rest) = i + int (length ws)"
  using assms(2)
proof (induction ws arbitrary: i)
  case Nil
  from assms(1) obtain a as where "sub = a # as" by (cases sub) auto
  then show ?case by simp
next
  case (Cons w ws)
  from assms(1) obtain a as where sub: "sub = a # as" by (cases sub) auto
  with Cons.prems have "w \<noteq> a" by simp
  then have "\<not> prefix sub (w # ws @ sub @ rest)" using sub by simp
  moreover have "find_from (i + 1) sub (ws @ sub @ rest) = i + 1 + int (length ws)"
    using Cons by simp
  ultimately show ?case by simp
qed

lemma pragma_column:
  assumes "re_match pragma_rx l = Some m"
  shows "py_find l ''#pragma'' = int (length (takeWhile py_isspace l))"
proof -
  from pragma_rx_shape[OF assms] obtain ws rest where
    l: "l = ws @ ''#pragma'' @ rest" and ws: "\<forall>c \<in> set ws. py_isspace c" by blast
  have ns: "\<not> py_isspace (CHR ''#'')" by (simp add: py_isspace_def)
  with ws have "\<forall>c \<in> set ws. c \<noteq> hd ''#pragma''" by auto
  then have "py_find l ''#pragma'' = int (length ws)"
    unfolding py_find_def l using find_from_skip[of "''#pragma''" ws 0 rest] by simp
  moreover have "takeWhile py_isspace l = ws"
    unfolding l using ws ns by (simp add: takeWhile_append2)
  ultimately show ?thesis by simp
qed

lemma parse_openmp_directive_Some:
  "parse_openmp_directive text loc = Some d \<Longrightarrow>
     column_number d = column loc \<and> line_number d = line loc"
  by (auto simp: parse_openmp_directive_def Let_def split: if_splits)

lemma extract_openmp_pragmas_location:
  "d \<in> set (extract_openmp_pragmas toks) \<Longrightarrow>
     \<exists>t \<in> set toks. tok_spelling t = ''#'' \<and> column_number d = column (tok_location t)
        \<and> line_number d = line (tok_location t)"
proof (induction toks)
  case Nil
  then show ?case by simp
next
  case (Cons t ts)
  show ?case
  proof (cases "d \<in> set (extract_openmp_pragmas ts)")
    case True
    with Cons.IH show ?thesis by auto
  next
    case False
    with Cons.prems have sp: "tok_spelling t = ''#''"
      by (auto split: if_splits)
    from False Cons.prems obtain ptext where "parse_openmp_directive ptext (tok_location t) = Some d"
      by (auto simp: Let_def split: if_splits option.splits)
    from parse_openmp_directive_Some[OF this] sp show ?thesis by simp
  qed
qed

text \<open>
  Claim C5, as the code has it. A directive built from the tokens of the tree stores the
  column of the location of its leading \<open>#\<close> token, as the parser reports it (and that
  token's line); it is not set to -1. A directive of the text scan stores the index of
  \<open>#pragma\<close> in its line, which is the number of white-space characters before it.
\<close>

theorem directive_column:
  "(\<forall>d \<in> set (extract_openmp_pragmas toks).
      \<exists>t \<in> set toks. tok_spelling t = ''#'' \<and> column_number d = column (tok_location t)
         \<and> line_number d = line (tok_location t)) \<and>
   (\<forall>d \<in> set (extract_openmp_directives content).
      column_number d = py_find (splitlines content ! nat (line_number d - 1)) ''#pragma'' \<and>
      column_number d =
        int (length (takeWhile py_isspace (splitlines content ! nat (line_number d - 1)))))"
proof (intro conjI ballI)
  fix d assume "d \<in> set (extract_openmp_pragmas toks)"
  then show "\<exists>t \<in> set toks. tok_spelling t = ''#'' \<and> column_number d = column (tok_location t)
         \<and> line_number d = line (tok_location t)"
    by (rule extract_openmp_pragmas_location)
next
  fix d assume "d \<in> set (extract_openmp_directives content)"
  then obtain n l where nl: "(n, l) \<in> set (enumerate_from 1 (splitlines content))"
      and d: "line_directive (n, l) = Some d"
    unfolding extract_openmp_directives_def by (metis set_map_filter prod.collapse)
  from d obtain m where m: "re_match pragma_rx l = Some m"
    by (auto simp: line_directive_def split: option.splits)
  from enumerate_from_set[OF nl] line_directive_Some[OF d]
  have l: "l = splitlines content ! nat (line_number d - 1)"
    and c: "column_number d = py_find l ''#pragma''" by simp_all
  from c l show "column_number d = py_find (splitlines content ! nat (line_number d - 1)) ''#pragma''"
    by simp
  from c l pragma_column[OF m]
  show "column_number d =
        int (length (takeWhile py_isspace (splitlines content ! nat (line_number d - 1))))"
    by simp
qed

theorem directive_column_witness:
  "extract_openmp_pragmas pragma_tokens_at_3_5 \<noteq> [] \<and>
   extract_openmp_directives two_line_source \<noteq> [] \<and>
   (\<exists>t \<in> set pragma_tokens_at_3_5. tok_spelling t = ''#'' \<and>
      column_number (hd (extract_openmp_pragmas pragma_tokens_at_3_5)) = column (tok_location t) \<and>
      line_number (hd (extract_openmp_pragmas pragma_tokens_at_3_5)) = line (tok_location t)) \<and>
   column_number (hd (extract_openmp_directives two_line_source)) =
     py_find (splitlines two_line_source !
            nat (line_number (hd (extract_openmp_directives two_line_source)) - 1)) ''#pragma'' \<and>
   column_number (hd (extract_openmp_directives two_line_source)) =
     int (length (takeWhile py_isspace (splitlines two_line_source !
            nat (line_number (hd (extract_openmp_directives two_line_source)) - 1))))"
proof -
  have ne1: "extract_openmp_pragmas pragma_tokens_at_3_5 \<noteq> []"
    by code_simp
  have ne2: "extract_openmp_directives two_line_source \<noteq> []"
    by code_simp
  from ne1 have in1: "hd (extract_openmp_pragmas pragma_tokens_at_3_5)
      \<in> set (extract_openmp_pragmas pragma_tokens_at_3_5)"
    by simp
  from ne2 have in2: "hd (extract_openmp_directives two_line_source)
      \<in> set (extract_openmp_directives two_line_source)"
    by simp
  from directive_column[of pragma_tokens_at_3_5 two_line_source] in1 in2 ne1 ne2
  show ?thesis
    by blast
qed

text \<open>The claim as the specification words it fails: the token path stores 5, the column
  of \<open>#\<close>, where the claim says -1.\<close>

theorem token_path_column_counterexample:
  "extract_openmp_pragmas pragma_tokens_at_3_5 =
     [\<lparr>name = ''parallel'', clauses = [], line_number = 3, column_number = 5,
       full_text = ''# pragma omp parallel''\<rparr>] \<and>
   column_number (hd (extract_openmp_pragmas pragma_tokens_at_3_5)) \<noteq> - 1"
  by code_simp

section \<open>Properties of the classifiers\<close>

subsection \<open>Substrings\<close>

lemma py_in_sublist: "py_in sub s \<longleftrightarrow> sublist sub s"
  by (induction s) (simp_all add: sublist_Cons_right)

lemma list_ex_py_in: "list_ex (\<lambda>k. py_in k s) ks \<longleftrightarrow> (\<exists>k \<in> set ks. sublist k s)"
  by (simp add: list_ex_iff py_in_sublist)

subsection \<open>Negative tests\<close>

text \<open>
  Claim C8. A file is classified as a negative test if and only if its lower-cased name
  contains one of \<open>messages\<close>, \<open>error\<close>, \<open>warn\<close>, \<open>diag\<close>, \<open>negative\<close>, \<open>invalid\<close>, \<open>bad\<close>,
  \<open>fail\<close>, \<open>wrong\<close>, or its body contains \<open>expected-error\<close> or \<open>expected-warning\<close>. A file
  named \<open>messages.c\<close> is negative whatever its body is.
\<close>

theorem negative_test_rule:
  "(is_negative_test_case fp content \<longleftrightarrow>
      (\<exists>indicator \<in> {''messages'', ''error'', ''warn'', ''diag'', ''negative'', ''invalid'',
                        ''bad'', ''fail'', ''wrong''}. sublist indicator (lower (path_name fp)))
      \<or> sublist ''expected-error'' content \<or> sublist ''expected-warning'' content)
   \<and> is_negative_test_case messages_c body"
proof
  show "is_negative_test_case fp content \<longleftrightarrow>
      (\<exists>indicator \<in> {''messages'', ''error'', ''warn'', ''diag'', ''negative'', ''invalid'',
                        ''bad'', ''fail'', ''wrong''}. sublist indicator (lower (path_name fp)))
      \<or> sublist ''expected-error'' content \<or> sublist ''expected-warning'' content"
    unfolding is_negative_test_case_def Let_def list_ex_py_in py_in_sublist negative_indicators_def
    by auto
  have "py_in ''messages'' (lower (path_name messages_c))"
    by code_simp
  then show "is_negative_test_case messages_c body"
    by (simp add: is_negative_test_case_def negative_indicators_def)
qed

subsection \<open>The complexity score\<close>

lemma set_foldl_set_add: "set (foldl set_add s xs) = set s \<union> set xs"
  by (induction xs arbitrary: s) (auto simp: set_add_def)

lemma distinct_foldl_set_add: "distinct s \<Longrightarrow> distinct (foldl set_add s xs)"
  by (induction xs arbitrary: s) (auto simp: set_add_def)

lemma set_set_update: "set (set_update s xs) = set s \<union> set xs"
  by (simp add: set_update_def set_foldl_set_add)

lemma distinct_set_update: "distinct s \<Longrightarrow> distinct (set_update s xs)"
  by (simp add: set_update_def distinct_foldl_set_add)

lemma length_set_update_Nil: "length (set_update [] xs) = card (set xs)"
  using distinct_card[OF distinct_set_update[of "[]" xs]] by (simp add: set_set_update)

text \<open>
  Claim C7. The complexity score is the minimum of 10 and the sum of: twice the number
  of directives, the clause tokens of all directives, the number of check-pattern lines,
  twice the number of expected-error annotations, the number of function declarations
  divided by 2 (integer division), the number of diagnostics, and the number of distinct
  diagnostic kinds. The score lies between 0 and 10. The error patterns are those
  \<open>_categorize_error_patterns\<close> builds from the diagnostics \<open>pes\<close>; the bounds hold for
  any error patterns.
\<close>

theorem complexity_score_formula:
  "calculate_complexity_score ds checks exps ast (categorize_error_patterns pes exps content) =
     min 10 (2 * int (length ds) + (\<Sum>d\<leftarrow>ds. int (length (clauses d))) + int (length checks)
             + 2 * int (length exps)
             + int (length (get_list (ap_function_declarations ast)) div 2)
             + int (length pes) + int (card (error_type ` set pes)))
   \<and> 0 \<le> calculate_complexity_score ds checks exps ast ep
   \<and> calculate_complexity_score ds checks exps ast ep \<le> 10"
proof (intro conjI)
  have "length (ep_error_types (categorize_error_patterns pes exps content))
          = card (error_type ` set pes)"
    by (simp add: categorize_error_patterns_def Let_def length_set_update_Nil)
  moreover have "ep_parse_errors (categorize_error_patterns pes exps content) = pes"
    by (simp add: categorize_error_patterns_def Let_def)
  ultimately show "calculate_complexity_score ds checks exps ast
        (categorize_error_patterns pes exps content) =
     min 10 (2 * int (length ds) + (\<Sum>d\<leftarrow>ds. int (length (clauses d))) + int (length checks)
             + 2 * int (length exps)
             + int (length (get_list (ap_function_declarations ast)) div 2)
             + int (length pes) + int (card (error_type ` set pes)))"
    by (simp add: calculate_complexity_score_def Let_def zdiv_int min.commute)
  have nn: "0 \<le> (\<Sum>d\<leftarrow>ds. int (length (clauses d)))"
    by (rule sum_list_nonneg) auto
  have dv: "0 \<le> int (length (get_list (ap_function_declarations ast))) div 2"
    by simp
  from nn dv show "0 \<le> calculate_complexity_score ds checks exps ast ep"
    unfolding calculate_complexity_score_def Let_def by linarith
  show "calculate_complexity_score ds checks exps ast ep \<le> 10"
    by (simp add: calculate_complexity_score_def Let_def)
qed

subsection \<open>The category\<close>

text \<open>
  Claim C6, as the code has it. The categories are tried in the order \<open>PARALLEL\<close>,
  \<open>WORKSHARING\<close>, \<open>TARGET\<close>, \<open>SYNCHRONIZATION\<close>, \<open>SIMD\<close>, \<open>TASK\<close>; the first whose predicate
  holds wins and \<open>GENERAL\<close> is the fallback. Only \<open>PARALLEL\<close> reads all three signals. The
  other predicates never read the body: \<open>WORKSHARING\<close> holds when \<open>for\<close> or \<open>sections\<close>
  occurs in the lower-cased file name or a lower-cased directive name equals \<open>for\<close>,
  \<open>sections\<close> or \<open>single\<close>; \<open>TARGET\<close>, \<open>SIMD\<close> and \<open>TASK\<close> when their keyword occurs in the file
  name or in a directive name; \<open>SYNCHRONIZATION\<close> when \<open>atomic\<close> or \<open>critical\<close> occurs in the
  file name or a directive name equals \<open>atomic\<close>, \<open>critical\<close> or \<open>barrier\<close>. So two bodies
  without \<open>parallel\<close> give the same category.
\<close>

theorem categorize_rules:
  "categorize_test filename directives content =
     first_match
       [(PARALLEL, sublist ''parallel'' (lower filename)
           \<or> (\<exists>d \<in> set directives. sublist ''parallel'' (lower (name d)))
           \<or> sublist ''parallel'' (lower content)),
        (WORKSHARING, sublist ''for'' (lower filename) \<or> sublist ''sections'' (lower filename)
           \<or> (\<exists>d \<in> set directives. lower (name d) \<in> {''for'', ''sections'', ''single''})),
        (TARGET, sublist ''target'' (lower filename)
           \<or> (\<exists>d \<in> set directives. sublist ''target'' (lower (name d)))),
        (SYNCHRONIZATION, sublist ''atomic'' (lower filename) \<or> sublist ''critical'' (lower filename)
           \<or> (\<exists>d \<in> set directives. lower (name d) \<in> {''atomic'', ''critical'', ''barrier''})),
        (SIMD, sublist ''simd'' (lower filename)
           \<or> (\<exists>d \<in> set directives. sublist ''simd'' (lower (name d)))),
        (TASK, sublist ''task'' (lower filename)
           \<or> (\<exists>d \<in> set directives. sublist ''task'' (lower (name d))))]
   \<and> (\<not> sublist ''parallel'' (lower content) \<and> \<not> sublist ''parallel'' (lower content')
        \<longrightarrow> categorize_test filename directives content
              = categorize_test filename directives content')"
proof
  show "categorize_test filename directives content =
     first_match
       [(PARALLEL, sublist ''parallel'' (lower filename)
           \<or> (\<exists>d \<in> set directives. sublist ''parallel'' (lower (name d)))
           \<or> sublist ''parallel'' (lower content)),
        (WORKSHARING, sublist ''for'' (lower filename) \<or> sublist ''sections'' (lower filename)
           \<or> (\<exists>d \<in> set directives. lower (name d) \<in> {''for'', ''sections'', ''single''})),
        (TARGET, sublist ''target'' (lower filename)
           \<or> (\<exists>d \<in> set directives. sublist ''target'' (lower (name d)))),
        (SYNCHRONIZATION, sublist ''atomic'' (lower filename) \<or> sublist ''critical'' (lower filename)
           \<or> (\<exists>d \<in> set directives. lower (name d) \<in> {''atomic'', ''critical'', ''barrier''})),
        (SIMD, sublist ''simd'' (lower filename)
           \<or> (\<exists>d \<in> set directives. sublist ''simd'' (lower (name d)))),
        (TASK, sublist ''task'' (lower filename)
           \<or> (\<exists>d \<in> set directives. sublist ''task'' (lower (name d))))]"
    unfolding categorize_test_def Let_def
    by (simp only: first_match.simps py_in_sublist list_ex_iff set_map bex_simps image_iff
          list.set insert_iff empty_iff)
  show "\<not> sublist ''parallel'' (lower content) \<and> \<not> sublist ''parallel'' (lower content')
        \<longrightarrow> categorize_test filename directives content
              = categorize_test filename directives content'"
    unfolding categorize_test_def Let_def py_in_sublist by simp
qed

text \<open>Two bodies without \<open>parallel\<close>, one of them a \<open>for\<close> loop: the category is the same,
  \<open>GENERAL\<close>.\<close>

theorem categorize_rules_witness:
  "(\<not> sublist ''parallel'' (lower ''for (;;) {}'') \<and> \<not> sublist ''parallel'' (lower ''int x;''))
   \<and> categorize_test ''x.c'' [] ''for (;;) {}'' = categorize_test ''x.c'' [] ''int x;''"
proof -
  have h: "\<not> sublist ''parallel'' (lower ''for (;;) {}'') \<and> \<not> sublist ''parallel'' (lower ''int x;'')"
    by code_simp
  have imp: "\<not> sublist ''parallel'' (lower ''for (;;) {}'') \<and> \<not> sublist ''parallel'' (lower ''int x;'')
      \<longrightarrow> categorize_test ''x.c'' [] ''for (;;) {}'' = categorize_test ''x.c'' [] ''int x;''"
    using categorize_rules[of "''x.c''" "[]" "''for (;;) {}''" "''int x;''"] by (rule conjunct2)
  from imp h have "categorize_test ''x.c'' [] ''for (;;) {}'' = categorize_test ''x.c'' [] ''int x;''"
    by (rule mp)
  with h show ?thesis by (rule conjI)
qed

text \<open>The claim as the specification words it, with every predicate reading all three
  signals, fails on a body that holds \<open>for\<close>: the code answers \<open>GENERAL\<close>, the specification's
  rule \<open>WORKSHARING\<close>.\<close>

theorem categorize_body_counterexample:
  "categorize_test ''x.c'' [] ''for (;;) {}'' = GENERAL \<and>
   categorize_spec ''x.c'' [] ''for (;;) {}'' = WORKSHARING"
  by code_simp

section \<open>Properties of \<open>process_test_file\<close>\<close>

subsection \<open>When a record is produced\<close>

lemma process_test_file_Some_iff:
  "process_test_file e fp \<noteq> None \<longleftrightarrow>
     (\<exists>f content. fs e (path_str fp) = Some f \<and> read_text f = Some content \<and> content \<noteq> [])"
  by (auto simp: process_test_file_def read_file_content_def Let_def split: option.splits)

text \<open>
  Claim C1, as the code has it. \<open>process_test_file\<close> produces a record exactly when the file
  exists, can be read and its content is not the empty string; the parser does not matter,
  and when it fails altogether (\<open>extract_patterns\<close> returns \<open>{}\<close>) the record has empty
  parser-derived fields. A readable file whose content is the empty string yields no
  record.
\<close>

theorem record_iff_nonempty_content:
  "(process_test_file e fp \<noteq> None \<longleftrightarrow>
      (\<exists>f content. fs e (path_str fp) = Some f \<and> read_text f = Some content \<and> content \<noteq> []))
   \<and> (\<forall>r. process_test_file e fp = Some r
          \<and> extract_patterns e (path_str fp) = empty_ast_patterns \<longrightarrow>
        ast_nodes r = [] \<and> function_declarations r = [] \<and> variable_declarations r = []
        \<and> parse_errors r = [] \<and> file_path r = path_str fp \<and> file_name r = path_name fp)"
proof (intro conjI allI impI)
  show "process_test_file e fp \<noteq> None \<longleftrightarrow>
      (\<exists>f content. fs e (path_str fp) = Some f \<and> read_text f = Some content \<and> content \<noteq> [])"
    by (rule process_test_file_Some_iff)
next
  fix r
  assume a: "process_test_file e fp = Some r
          \<and> extract_patterns e (path_str fp) = empty_ast_patterns"
  then have "process_test_file e fp = Some r" and
    ea: "extract_patterns e (path_str fp) = empty_ast_patterns" by simp_all
  then obtain f content where "fs e (path_str fp) = Some f" "read_text f = Some content"
      "content \<noteq> []" and r: "process_test_file e fp = Some r"
    by (auto simp: process_test_file_def read_file_content_def Let_def split: option.splits if_splits)
  then have
    "ast_nodes r = get_list (ap_ast_nodes (extract_patterns e (path_str fp)))"
    "function_declarations r =
       map (py_str e) (get_list (ap_function_declarations (extract_patterns e (path_str fp))))"
    "variable_declarations r =
       map (py_str e) (get_list (ap_variable_declarations (extract_patterns e (path_str fp))))"
    "parse_errors r = get_list (ap_parse_errors (extract_patterns e (path_str fp)))"
    "file_path r = path_str fp" "file_name r = path_name fp"
    by (auto simp: process_test_file_def read_file_content_def Let_def
          categorize_error_patterns_def)
  with ea show "ast_nodes r = []" "function_declarations r = []" "variable_declarations r = []"
     "parse_errors r = []" "file_path r = path_str fp" "file_name r = path_name fp"
    by (simp_all add: empty_ast_patterns_def get_list_def)
qed

text \<open>A readable file with one line, and a parser that fails.\<close>

theorem record_iff_nonempty_content_witness:
  "fs (run_env flags_source length ''t'') (path_str loop_c)
     = Some \<lparr>st_size = int (length flags_source), read_text = Some flags_source\<rparr>
   \<and> flags_source \<noteq> []
   \<and> extract_patterns (run_env flags_source length ''t'') (path_str loop_c) = empty_ast_patterns
   \<and> process_test_file (run_env flags_source length ''t'') loop_c \<noteq> None
   \<and> map_option ast_nodes (process_test_file (run_env flags_source length ''t'') loop_c) = Some []"
proof -
  have f: "fs (run_env flags_source length ''t'') (path_str loop_c)
     = Some \<lparr>st_size = int (length flags_source), read_text = Some flags_source\<rparr>"
    by (simp add: run_env_def one_file_def)
  have n: "flags_source \<noteq> []" by (simp add: flags_source_def)
  have p: "extract_patterns (run_env flags_source length ''t'') (path_str loop_c) = empty_ast_patterns"
    by (simp add: run_env_def failing_parser_def)
  from f n have ex: "\<exists>f content. fs (run_env flags_source length ''t'') (path_str loop_c) = Some f
      \<and> read_text f = Some content \<and> content \<noteq> []"
    by simp
  note t = record_iff_nonempty_content[of "run_env flags_source length ''t''" loop_c]
  from t ex have ne: "process_test_file (run_env flags_source length ''t'') loop_c \<noteq> None"
    by blast
  then obtain r where r: "process_test_file (run_env flags_source length ''t'') loop_c = Some r"
    by auto
  with t p have "ast_nodes r = []" by blast
  with r f n p ne show ?thesis by simp
qed

text \<open>The claim as the specification words it fails on the empty file: it exists and is
  read without error, and no record is produced.\<close>

theorem empty_file_counterexample:
  "fs (run_env [] length ''t'') (path_str loop_c) = Some \<lparr>st_size = 0, read_text = Some []\<rparr> \<and>
   process_test_file (run_env [] length ''t'') loop_c = None"
  by code_simp

subsection \<open>Running twice\<close>


lemma mset_list_of_set: "mset (list_of_set h s) = mset s"
  by (simp add: list_of_set_def)

lemma negative_characteristics_hash:
  "(extract_negative_test_characteristics h2 fp content ep)
       \<lparr>error_coverage_areas :=
          error_coverage_areas (extract_negative_test_characteristics h1 fp content ep)\<rparr>
   = extract_negative_test_characteristics h1 fp content ep"
  by (simp add: extract_negative_test_characteristics_def Let_def)

lemma mset_coverage_areas:
  "mset (error_coverage_areas (extract_negative_test_characteristics h2 fp content ep)) =
   mset (error_coverage_areas (extract_negative_test_characteristics h1 fp content ep))"
  by (simp add: extract_negative_test_characteristics_def Let_def
        identify_error_coverage_areas_def mset_list_of_set)

lemma process_test_file_fields:
  assumes "fs e (path_str fp) = Some f" "read_text f = Some content"
    and "process_test_file e fp = Some r"
  shows "file_path r = path_str fp" "file_name r = path_name fp" "file_size r = st_size f"
    "compiler_stage r = determine_compiler_stage (extract_run_commands content) content"
    "run_commands r = extract_run_commands content"
    "compiler_flags r = extract_compiler_flags (str_hash e) (extract_run_commands content)"
    "openmp_directives r = extract_openmp_directives content"
    "openmp_version r = extract_openmp_version content (extract_run_commands content)"
    "test_category r = categorize_test (path_name fp) (extract_openmp_directives content) content"
    "check_patterns r = extract_check_patterns content"
    "expected_errors r = extract_expected_errors content"
    "expected_warnings r = extract_expected_warnings content"
    "ast_nodes r = get_list (ap_ast_nodes (extract_patterns e (path_str fp)))"
    "function_declarations r =
       map (py_str e) (get_list (ap_function_declarations (extract_patterns e (path_str fp))))"
    "variable_declarations r =
       map (py_str e) (get_list (ap_variable_declarations (extract_patterns e (path_str fp))))"
    "ir_patterns r = extract_ir_patterns (extract_check_patterns content)"
    "runtime_calls r = extract_runtime_calls (str_hash e) (extract_check_patterns content)"
    "parse_errors r = ep_parse_errors (error_patterns_of e fp content)"
    "expected_error_patterns r = expected_patterns (error_patterns_of e fp content)"
    "negative_test_characteristics r =
       extract_negative_test_characteristics (str_hash e) fp content (error_patterns_of e fp content)"
    "error_trigger_mechanisms r = trigger_mechanisms (error_patterns_of e fp content)"
    "error_types r = list_of_set (str_hash e) (ep_error_types (error_patterns_of e fp content))"
    "complexity_score r =
       calculate_complexity_score (extract_openmp_directives content)
         (extract_check_patterns content) (extract_expected_errors content)
         (extract_patterns e (path_str fp)) (error_patterns_of e fp content)"
    "line_count r = int (length (splitlines content))"
    "created_timestamp r = now_isoformat e"
  using assms
  by (auto simp: process_test_file_def read_file_content_def extract_file_info_def Let_def
        error_patterns_of_def split: if_splits)



text \<open>
  Claim C3, as the code has it. Two runs of \<open>process_test_file\<close> on the same file, with the
  same file system, the same parser results and the same \<open>str\<close>, both produce a record or
  both produce none. Their records agree in every field except \<open>created_timestamp\<close> and
  the order of the elements of \<open>compiler_flags\<close>, \<open>runtime_calls\<close>, \<open>error_types\<close> and
  \<open>error_coverage_areas\<close>: these four lists come from \<open>list(set)\<close>; they hold the same
  elements in both runs, in an order that follows the string hash of the process. When
  both runs hash strings alike, the records agree in everything but the timestamp.
\<close>

theorem rerun_agreement:
  "fs e1 = fs e2 \<and> extract_patterns e1 = extract_patterns e2 \<and> py_str e1 = py_str e2 \<longrightarrow>
   (process_test_file e1 fp = None \<longleftrightarrow> process_test_file e2 fp = None) \<and>
   (\<forall>r1 r2. process_test_file e1 fp = Some r1 \<and> process_test_file e2 fp = Some r2 \<longrightarrow>
      r2\<lparr>compiler_flags := compiler_flags r1,
         runtime_calls := runtime_calls r1,
         error_types := error_types r1,
         negative_test_characteristics :=
           (negative_test_characteristics r2)
             \<lparr>error_coverage_areas := error_coverage_areas (negative_test_characteristics r1)\<rparr>,
         created_timestamp := created_timestamp r1\<rparr> = r1
      \<and> mset (compiler_flags r2) = mset (compiler_flags r1)
      \<and> mset (runtime_calls r2) = mset (runtime_calls r1)
      \<and> mset (error_types r2) = mset (error_types r1)
      \<and> mset (error_coverage_areas (negative_test_characteristics r2))
          = mset (error_coverage_areas (negative_test_characteristics r1))
      \<and> (str_hash e1 = str_hash e2 \<longrightarrow> r2\<lparr>created_timestamp := created_timestamp r1\<rparr> = r1))"
proof (intro impI conjI allI)
  assume a: "fs e1 = fs e2 \<and> extract_patterns e1 = extract_patterns e2 \<and> py_str e1 = py_str e2"
  have "process_test_file e1 fp \<noteq> None \<longleftrightarrow> process_test_file e2 fp \<noteq> None"
    unfolding process_test_file_Some_iff using a by simp
  then show "process_test_file e1 fp = None \<longleftrightarrow> process_test_file e2 fp = None"
    by blast
next
  fix r1 r2
  assume a: "fs e1 = fs e2 \<and> extract_patterns e1 = extract_patterns e2 \<and> py_str e1 = py_str e2"
    and r: "process_test_file e1 fp = Some r1 \<and> process_test_file e2 fp = Some r2"
  from r have "process_test_file e2 fp \<noteq> None" by simp
  then obtain f content where f2: "fs e2 (path_str fp) = Some f"
      and c: "read_text f = Some content"
    unfolding process_test_file_Some_iff by blast
  from f2 a have f1: "fs e1 (path_str fp) = Some f" by simp
  from r have p1: "process_test_file e1 fp = Some r1" and p2: "process_test_file e2 fp = Some r2"
    by simp_all
  note F1 = process_test_file_fields[OF f1 c p1]
  note F2 = process_test_file_fields[OF f2 c p2]
  from a have ep: "error_patterns_of e1 fp content = error_patterns_of e2 fp content"
    by (simp add: error_patterns_of_def)
  show "r2\<lparr>compiler_flags := compiler_flags r1,
         runtime_calls := runtime_calls r1,
         error_types := error_types r1,
         negative_test_characteristics :=
           (negative_test_characteristics r2)
             \<lparr>error_coverage_areas := error_coverage_areas (negative_test_characteristics r1)\<rparr>,
         created_timestamp := created_timestamp r1\<rparr> = r1"
    by (rule TestPattern.equality) (simp_all add: F1 F2 a ep negative_characteristics_hash)
  show "mset (compiler_flags r2) = mset (compiler_flags r1)"
    unfolding F1 F2 by (simp add: extract_compiler_flags_def mset_list_of_set)
  show "mset (runtime_calls r2) = mset (runtime_calls r1)"
    unfolding F1 F2 by (simp add: extract_runtime_calls_def mset_list_of_set)
  show "mset (error_types r2) = mset (error_types r1)"
    unfolding F1 F2 ep by (simp add: mset_list_of_set)
  show "mset (error_coverage_areas (negative_test_characteristics r2))
          = mset (error_coverage_areas (negative_test_characteristics r1))"
    unfolding F1 F2 ep by (rule mset_coverage_areas)
  show "r2\<lparr>created_timestamp := created_timestamp r1\<rparr> = r1" if h: "str_hash e1 = str_hash e2"
    by (rule TestPattern.equality) (simp_all add: F1 F2 a ep h)
qed

theorem rerun_agreement_witness:
  "(fs first_run = fs second_run \<and> extract_patterns first_run = extract_patterns second_run
      \<and> py_str first_run = py_str second_run)
   \<and> process_test_file first_run loop_c \<noteq> None
   \<and> process_test_file second_run loop_c \<noteq> None
   \<and> map_option (\<lambda>r. mset (compiler_flags r)) (process_test_file second_run loop_c)
       = map_option (\<lambda>r. mset (compiler_flags r)) (process_test_file first_run loop_c)
   \<and> map_option run_commands (process_test_file second_run loop_c)
       = map_option run_commands (process_test_file first_run loop_c)"
proof -
  have hyp: "fs first_run = fs second_run \<and> extract_patterns first_run = extract_patterns second_run
      \<and> py_str first_run = py_str second_run"
    by (simp add: first_run_def second_run_def run_env_def)
  have f1: "fs first_run (path_str loop_c)
      = Some \<lparr>st_size = int (length flags_source), read_text = Some flags_source\<rparr>"
    by (simp add: first_run_def run_env_def one_file_def)
  have n: "flags_source \<noteq> []" by (simp add: flags_source_def)
  from f1 n have ne1: "process_test_file first_run loop_c \<noteq> None"
    unfolding process_test_file_Some_iff by simp
  from f1 n hyp have ne2: "process_test_file second_run loop_c \<noteq> None"
    unfolding process_test_file_Some_iff by simp
  from ne1 obtain r1 where r1: "process_test_file first_run loop_c = Some r1" by auto
  from ne2 obtain r2 where r2: "process_test_file second_run loop_c = Some r2" by auto
  from rerun_agreement[of first_run second_run loop_c] hyp
  have concl: "(process_test_file first_run loop_c = None
        \<longleftrightarrow> process_test_file second_run loop_c = None) \<and>
   (\<forall>r1 r2. process_test_file first_run loop_c = Some r1
        \<and> process_test_file second_run loop_c = Some r2 \<longrightarrow>
      r2\<lparr>compiler_flags := compiler_flags r1,
         runtime_calls := runtime_calls r1,
         error_types := error_types r1,
         negative_test_characteristics :=
           (negative_test_characteristics r2)
             \<lparr>error_coverage_areas := error_coverage_areas (negative_test_characteristics r1)\<rparr>,
         created_timestamp := created_timestamp r1\<rparr> = r1
      \<and> mset (compiler_flags r2) = mset (compiler_flags r1)
      \<and> mset (runtime_calls r2) = mset (runtime_calls r1)
      \<and> mset (error_types r2) = mset (error_types r1)
      \<and> mset (error_coverage_areas (negative_test_characteristics r2))
          = mset (error_coverage_areas (negative_test_characteristics r1))
      \<and> (str_hash first_run = str_hash second_run
            \<longrightarrow> r2\<lparr>created_timestamp := created_timestamp r1\<rparr> = r1))"
    by (rule mp)
  note q = concl[THEN conjunct2, rule_format, OF conjI[OF r1 r2]]
  have m: "mset (compiler_flags r2) = mset (compiler_flags r1)"
    by (rule q[THEN conjunct2, THEN conjunct1])
  have "run_commands (r2\<lparr>compiler_flags := compiler_flags r1,
         runtime_calls := runtime_calls r1,
         error_types := error_types r1,
         negative_test_characteristics :=
           (negative_test_characteristics r2)
             \<lparr>error_coverage_areas := error_coverage_areas (negative_test_characteristics r1)\<rparr>,
         created_timestamp := created_timestamp r1\<rparr>) = run_commands r1"
    by (simp only: q[THEN conjunct1])
  then have rc: "run_commands r2 = run_commands r1" by simp
  from hyp ne1 ne2 m rc r1 r2 show ?thesis by simp
qed

text \<open>The claim as the specification words it, with the order of \<open>compiler_flags\<close> the same
  in both runs, fails for two processes that hash strings differently: the file
  \<open>// RUN: cc -a -bb\<close> gives the flags in one order in the first run and in the other order
  in the second.\<close>

theorem set_order_counterexample:
  "map_option compiler_flags (process_test_file first_run loop_c)
     = Some [''-a'', ''-bb''] \<and>
   map_option compiler_flags (process_test_file second_run loop_c)
     = Some [''-bb'', ''-a'']"
  by code_simp

section \<open>Properties of the serialization\<close>

lemma those_comp_inverse:
  "(\<And>x. x \<in> set xs \<Longrightarrow> f (g x) = Some x) \<Longrightarrow> those (map (f \<circ> g) xs) = Some xs"
  by (induction xs) simp_all

lemma those_map_inverse:
  "(\<And>x. x \<in> set xs \<Longrightarrow> f (g x) = Some x) \<Longrightarrow> those (map f (map g xs)) = Some xs"
  using those_comp_inverse[of xs f g] by simp

lemma as_str_list_inverse: "as_str_list (PList (map PStr xs)) = Some xs"
  by (simp add: as_str_list_def as_str_def those_comp_inverse)

lemma as_opt_str_inverse: "as_opt_str (opt_str v) = Some v"
  by (cases v) (simp_all add: as_opt_str_def opt_str_def)

lemma CompilerStage_call_value: "CompilerStage_call (PStr (CompilerStage_value s)) = Some s"
  by (cases s) (simp_all add: CompilerStage_call_def)

lemma TestCategory_call_value: "TestCategory_call (PStr (TestCategory_value c)) = Some c"
  by (cases c) (simp_all add: TestCategory_call_def)

lemma instances_inverse:
  assumes "\<And>x. \<exists>kv. asd x = PDict kv \<and> kwargs kv = Some x"
  shows "instances kwargs (PList (map asd xs)) = Some xs"
proof -
  have "those (map (\<lambda>d. case d of PDict kv \<Rightarrow> kwargs kv | _ \<Rightarrow> None) (map asd xs)) = Some xs"
  proof (rule those_map_inverse)
    fix x
    from assms[of x] obtain kv where "asd x = PDict kv" "kwargs kv = Some x" by blast
    then show "(case asd x of PDict kv \<Rightarrow> kwargs kv | _ \<Rightarrow> None) = Some x" by simp
  qed
  then show ?thesis by (simp add: instances_def)
qed

lemma OpenMPDirective_inverse:
  "\<exists>kv. asdict_OpenMPDirective d = PDict kv \<and> OpenMPDirective_kwargs kv = Some d"
  by (simp add: asdict_OpenMPDirective_def OpenMPDirective_kwargs_def only_keys_def
        as_str_def as_int_def as_str_list_inverse)

lemma ASTNode_inverse:
  "\<exists>kv. asdict_ASTNode n = PDict kv \<and> ASTNode_kwargs kv = Some n"
  by (simp add: asdict_ASTNode_def ASTNode_kwargs_def only_keys_def
        as_str_def as_int_def as_bool_def)

lemma ParseError_inverse:
  "\<exists>kv. asdict_ParseError e = PDict kv \<and> ParseError_kwargs kv = Some e"
  by (simp add: asdict_ParseError_def ParseError_kwargs_def only_keys_def
        as_str_def as_int_def)

lemma ExpectedErrorPattern_inverse:
  "\<exists>kv. asdict_ExpectedErrorPattern p = PDict kv \<and> ExpectedErrorPattern_kwargs kv = Some p"
  by (simp add: asdict_ExpectedErrorPattern_def ExpectedErrorPattern_kwargs_def only_keys_def
        as_str_def as_int_def as_opt_str_inverse)

lemma NegativeTestCharacteristics_inverse:
  "\<exists>kv. asdict_NegativeTestCharacteristics c = PDict kv
       \<and> NegativeTestCharacteristics_kwargs kv = Some c"
  by (simp add: asdict_NegativeTestCharacteristics_def NegativeTestCharacteristics_kwargs_def
        only_keys_def as_bool_def as_int_def as_opt_str_inverse as_str_list_inverse)


lemmas instances_inverses =
  instances_inverse[of asdict_OpenMPDirective OpenMPDirective_kwargs, OF OpenMPDirective_inverse]
  instances_inverse[of asdict_ASTNode ASTNode_kwargs, OF ASTNode_inverse]
  instances_inverse[of asdict_ParseError ParseError_kwargs, OF ParseError_inverse]
  instances_inverse[of asdict_ExpectedErrorPattern ExpectedErrorPattern_kwargs,
    OF ExpectedErrorPattern_inverse]

lemma negative_inverse:
  "(case asdict_NegativeTestCharacteristics c of
      PDict kv \<Rightarrow> NegativeTestCharacteristics_kwargs kv | _ \<Rightarrow> None) = Some c"
  using NegativeTestCharacteristics_inverse[of c] by auto

lemma to_dict_items:
  "to_dict r =
     [(''file_path'', PStr (file_path r)),
      (''file_name'', PStr (file_name r)),
      (''file_size'', PInt (file_size r)),
      (''compiler_stage'', PStr (CompilerStage_value (compiler_stage r))),
      (''run_commands'', PList (map PStr (run_commands r))),
      (''compiler_flags'', PList (map PStr (compiler_flags r))),
      (''openmp_directives'', PList (map asdict_OpenMPDirective (openmp_directives r))),
      (''openmp_version'', opt_str (openmp_version r)),
      (''test_category'', PStr (TestCategory_value (test_category r))),
      (''check_patterns'', PList (map PStr (check_patterns r))),
      (''expected_errors'', PList (map PStr (expected_errors r))),
      (''expected_warnings'', PList (map PStr (expected_warnings r))),
      (''ast_nodes'', PList (map asdict_ASTNode (ast_nodes r))),
      (''function_declarations'', PList (map PStr (function_declarations r))),
      (''variable_declarations'', PList (map PStr (variable_declarations r))),
      (''ir_patterns'', PList (map PStr (ir_patterns r))),
      (''runtime_calls'', PList (map PStr (runtime_calls r))),
      (''parse_errors'', PList (map asdict_ParseError (parse_errors r))),
      (''expected_error_patterns'',
         PList (map asdict_ExpectedErrorPattern (expected_error_patterns r))),
      (''negative_test_characteristics'',
         asdict_NegativeTestCharacteristics (negative_test_characteristics r)),
      (''error_trigger_mechanisms'', PList (map PStr (error_trigger_mechanisms r))),
      (''error_types'', PList (map PStr (error_types r))),
      (''complexity_score'', PInt (complexity_score r)),
      (''line_count'', PInt (line_count r)),
      (''created_timestamp'', PStr (created_timestamp r))]"
  by (simp add: to_dict_def asdict_def Let_def)

text \<open>
  Claim C2. For every record, \<open>from_dict\<close> applied to the result of \<open>to_dict\<close> succeeds and
  gives back the record, equal in every field: the nested lists of directives, AST-node
  summaries, parse errors and expected-error patterns, the negative-test profile (with its
  correlation dictionary), the two enumeration fields and the creation timestamp. This
  holds for the records \<open>process_test_file\<close> produces in particular.
\<close>

theorem from_dict_to_dict: "from_dict (to_dict r) = Some r"
  unfolding to_dict_items
  by (simp add: from_dict_def only_keys_def test_pattern_field_names_def
        CompilerStage_call_value TestCategory_call_value instances_inverses negative_inverse
        as_str_def as_int_def as_str_list_inverse as_opt_str_inverse)

section \<open>Expected against actual errors\<close>

subsection \<open>Dictionaries\<close>

lemma map_of_dict_set: "map_of (dict_set d k v) = (map_of d)(k \<mapsto> v)"
  by (induction d k v rule: dict_set.induct) auto

lemma keys_dict_set:
  "map fst (dict_set d k v) = (if k \<in> set (map fst d) then map fst d else map fst d @ [k])"
  by (induction d k v rule: dict_set.induct) auto

lemma distinct_dict_set: "distinct (map fst d) \<Longrightarrow> distinct (map fst (dict_set d k v))"
  by (simp add: keys_dict_set)

lemma dict_has_iff: "dict_has d k \<longleftrightarrow> k \<in> set (map fst d)"
  by (simp add: dict_has_def map_of_eq_None_iff)

lemma expected_by_line_props:
  "distinct (map fst (expected_by_line eps)) \<and>
   map_of (expected_by_line eps) =
     (\<lambda>l. if l \<in> ep_line_number ` set eps
          then Some (last (filter (\<lambda>p. ep_line_number p = l) eps)) else None)"
proof (induction eps rule: rev_induct)
  case Nil
  then show ?case by (simp add: expected_by_line_def)
next
  case (snoc p eps)
  have step: "expected_by_line (eps @ [p]) = dict_set (expected_by_line eps) (ep_line_number p) p"
    by (simp add: expected_by_line_def)
  from snoc show ?case
    unfolding step by (auto simp: distinct_dict_set map_of_dict_set fun_eq_iff)
qed

lemma actual_by_line_props:
  "distinct (map fst (actual_by_line pes)) \<and>
   map_of (actual_by_line pes) =
     (\<lambda>l. if l \<in> pe_line_number ` set pes
          then Some (filter (\<lambda>e. pe_line_number e = l) pes) else None)"
proof (induction pes rule: rev_induct)
  case Nil
  then show ?case by (simp add: actual_by_line_def)
next
  case (snoc e pes)
  define d where "d = actual_by_line pes"
  define d' where "d' = (if dict_has d (pe_line_number e) then d else dict_set d (pe_line_number e) [])"
  have step: "actual_by_line (pes @ [e]) =
      dict_set d' (pe_line_number e) (get_list (map_of d' (pe_line_number e)) @ [e])"
    by (simp add: actual_by_line_def Let_def d_def d'_def)
  from snoc have dd: "distinct (map fst d)" and
    md: "map_of d = (\<lambda>l. if l \<in> pe_line_number ` set pes
          then Some (filter (\<lambda>e. pe_line_number e = l) pes) else None)"
    by (simp_all add: d_def)
  have dd': "distinct (map fst d')" using dd by (simp add: d'_def distinct_dict_set)
  have g: "get_list (map_of d' (pe_line_number e)) = filter (\<lambda>x. pe_line_number x = pe_line_number e) pes"
  proof (cases "dict_has d (pe_line_number e)")
    case True
    then have "pe_line_number e \<in> pe_line_number ` set pes"
      using md by (auto simp: dict_has_def split: if_splits)
    with True md show ?thesis by (simp add: d'_def get_list_def)
  next
    case False
    then have "pe_line_number e \<notin> pe_line_number ` set pes"
      using md by (auto simp: dict_has_def split: if_splits)
    then have "filter (\<lambda>x. pe_line_number x = pe_line_number e) pes = []"
      by (fastforce simp: filter_empty_conv image_iff)
    with False show ?thesis by (simp add: d'_def get_list_def map_of_dict_set)
  qed
  have m': "\<And>l. l \<noteq> pe_line_number e \<Longrightarrow> map_of d' l = map_of d l"
    by (simp add: d'_def map_of_dict_set)
  show ?case
    unfolding step
  proof
    show "distinct (map fst (dict_set d' (pe_line_number e)
        (get_list (map_of d' (pe_line_number e)) @ [e])))"
      using dd' by (rule distinct_dict_set)
    show "map_of (dict_set d' (pe_line_number e) (get_list (map_of d' (pe_line_number e)) @ [e])) =
      (\<lambda>l. if l \<in> pe_line_number ` set (pes @ [e])
          then Some (filter (\<lambda>x. pe_line_number x = l) (pes @ [e])) else None)"
      unfolding map_of_dict_set g using m' md by (auto simp: fun_eq_iff)
  qed
qed


subsection \<open>The two loops of the correlation\<close>

lemma matched_loop:
  "foldl (\<lambda>(matched, unmatched) (line, expected).
            if has line then (matched @ [mk line expected], unmatched)
            else (matched, unmatched @ [pattern expected]))
     (m, u) items =
   (m @ map (\<lambda>(line, expected). mk line expected) (filter (\<lambda>(line, expected). has line) items),
    u @ map (\<lambda>(line, expected). pattern expected)
          (filter (\<lambda>(line, expected). \<not> has line) items))"
  by (induction items arbitrary: m u) (auto split: prod.splits)

lemma unexpected_loop:
  "foldl (\<lambda>unexpected (line, errors).
            if \<not> has line then unexpected @ map message errors else unexpected)
     u items =
   u @ concat (map (\<lambda>(line, errors). map message errors)
                 (filter (\<lambda>(line, errors). \<not> has line) items))"
  by (induction items arbitrary: u) (auto split: prod.splits)

lemma mapping_fields:
  "matched_errors (map_expected_to_actual_errors eps pes) =
     map (\<lambda>(l, expected). \<lparr>me_line = l, me_expected = pattern expected,
              me_actual = map message (get_list (map_of (actual_by_line pes) l))\<rparr>)
       (filter (\<lambda>(l, expected). dict_has (actual_by_line pes) l) (expected_by_line eps))"
  "unmatched_expected (map_expected_to_actual_errors eps pes) =
     map (\<lambda>(l, expected). pattern expected)
       (filter (\<lambda>(l, expected). \<not> dict_has (actual_by_line pes) l) (expected_by_line eps))"
  "unexpected_errors (map_expected_to_actual_errors eps pes) =
     concat (map (\<lambda>(l, errors). map message errors)
       (filter (\<lambda>(l, errors). \<not> dict_has (expected_by_line eps) l) (actual_by_line pes)))"
  "total_expected (map_expected_to_actual_errors eps pes) = int (length eps)"
  "total_actual (map_expected_to_actual_errors eps pes) = int (length pes)"
  unfolding map_expected_to_actual_errors_def Let_def matched_loop unexpected_loop
  by simp_all

lemma expected_by_line_set:
  "set (expected_by_line eps) =
     (\<lambda>l. (l, last (filter (\<lambda>p. ep_line_number p = l) eps))) ` ep_line_number ` set eps"
proof -
  have "(l, p) \<in> set (expected_by_line eps) \<longleftrightarrow>
        l \<in> ep_line_number ` set eps \<and> p = last (filter (\<lambda>p. ep_line_number p = l) eps)" for l p
  proof -
    have d: "distinct (map fst (expected_by_line eps))"
      using expected_by_line_props[of eps] by simp
    have "map_of (expected_by_line eps) l =
        (if l \<in> ep_line_number ` set eps
         then Some (last (filter (\<lambda>p. ep_line_number p = l) eps)) else None)"
      using expected_by_line_props[of eps] by simp
    then show ?thesis
      unfolding map_of_eq_Some_iff[OF d, symmetric] by (auto split: if_splits)
  qed
  then show ?thesis by auto
qed

lemma expected_by_line_keys:
  "set (map fst (expected_by_line eps)) = ep_line_number ` set eps"
  by (simp add: expected_by_line_set image_image)

lemma dict_has_expected: "dict_has (expected_by_line eps) l \<longleftrightarrow> l \<in> ep_line_number ` set eps"
  by (simp only: dict_has_iff expected_by_line_keys)

lemma dict_has_actual: "dict_has (actual_by_line pes) l \<longleftrightarrow> l \<in> pe_line_number ` set pes"
  using actual_by_line_props[of pes] by (simp add: dict_has_def)

lemma get_actual:
  "get_list (map_of (actual_by_line pes) l) = filter (\<lambda>e. pe_line_number e = l) pes"
proof (cases "l \<in> pe_line_number ` set pes")
  case True
  then show ?thesis using actual_by_line_props[of pes] by (simp add: get_list_def)
next
  case False
  then have "filter (\<lambda>e. pe_line_number e = l) pes = []"
    by (fastforce simp: filter_empty_conv image_iff)
  with False show ?thesis using actual_by_line_props[of pes] by (simp add: get_list_def)
qed

lemma actual_by_line_mem:
  "e \<in> set pes \<Longrightarrow>
   (pe_line_number e, filter (\<lambda>x. pe_line_number x = pe_line_number e) pes)
     \<in> set (actual_by_line pes)"
  using actual_by_line_props[of pes]
    map_of_eq_Some_iff[of "actual_by_line pes" "pe_line_number e"
      "filter (\<lambda>x. pe_line_number x = pe_line_number e) pes"]
  by simp

lemma retained_count:
  "length (expected_by_line eps) = card (ep_line_number ` set eps)"
proof -
  have "card (set (map fst (expected_by_line eps))) = length (map fst (expected_by_line eps))"
    using expected_by_line_props[of eps] by (intro distinct_card) simp
  then show ?thesis by (simp only: expected_by_line_keys length_map)
qed

subsection \<open>The correlation\<close>

text \<open>
  Claim C10. \<open>_map_expected_to_actual_errors\<close> keeps one expected pattern per line number,
  the last one in list order among those that share the line. Each line kept appears in
  exactly one of \<open>matched_errors\<close> and \<open>unmatched_expected\<close>: in \<open>matched_errors\<close>, with the
  messages of all parse errors of that line, when a parse error has that line, and in
  \<open>unmatched_expected\<close> otherwise. The two lists together have as many entries as there are
  distinct line numbers among the expected patterns, which is at most \<open>total_expected\<close>,
  the length of the list of expected patterns. The message of every parse error on a
  line without an expected pattern is in \<open>unexpected_errors\<close>.
\<close>

theorem expected_actual_correlation:
  "distinct (map fst (expected_by_line eps))
   \<and> set (expected_by_line eps) =
       (\<lambda>l. (l, last (filter (\<lambda>p. ep_line_number p = l) eps))) ` ep_line_number ` set eps
   \<and> matched_errors (map_expected_to_actual_errors eps pes) =
       map (\<lambda>(l, expected). \<lparr>me_line = l, me_expected = pattern expected,
                me_actual = map message (filter (\<lambda>e. pe_line_number e = l) pes)\<rparr>)
         (filter (\<lambda>(l, expected). l \<in> pe_line_number ` set pes) (expected_by_line eps))
   \<and> unmatched_expected (map_expected_to_actual_errors eps pes) =
       map (\<lambda>(l, expected). pattern expected)
         (filter (\<lambda>(l, expected). l \<notin> pe_line_number ` set pes) (expected_by_line eps))
   \<and> length (matched_errors (map_expected_to_actual_errors eps pes))
       + length (unmatched_expected (map_expected_to_actual_errors eps pes))
       = card (ep_line_number ` set eps)
   \<and> int (card (ep_line_number ` set eps)) \<le> total_expected (map_expected_to_actual_errors eps pes)
   \<and> total_expected (map_expected_to_actual_errors eps pes) = int (length eps)
   \<and> (\<forall>e \<in> set pes. pe_line_number e \<notin> ep_line_number ` set eps
         \<longrightarrow> message e \<in> set (unexpected_errors (map_expected_to_actual_errors eps pes)))"
proof (intro conjI)
  show "distinct (map fst (expected_by_line eps))"
    using expected_by_line_props[of eps] by simp
  show "set (expected_by_line eps) =
       (\<lambda>l. (l, last (filter (\<lambda>p. ep_line_number p = l) eps))) ` ep_line_number ` set eps"
    by (rule expected_by_line_set)
  show m: "matched_errors (map_expected_to_actual_errors eps pes) =
       map (\<lambda>(l, expected). \<lparr>me_line = l, me_expected = pattern expected,
                me_actual = map message (filter (\<lambda>e. pe_line_number e = l) pes)\<rparr>)
         (filter (\<lambda>(l, expected). l \<in> pe_line_number ` set pes) (expected_by_line eps))"
    by (simp only: mapping_fields dict_has_actual get_actual)
  show u: "unmatched_expected (map_expected_to_actual_errors eps pes) =
       map (\<lambda>(l, expected). pattern expected)
         (filter (\<lambda>(l, expected). l \<notin> pe_line_number ` set pes) (expected_by_line eps))"
    by (simp only: mapping_fields dict_has_actual)
  have "length (filter (\<lambda>(l, expected). l \<in> pe_line_number ` set pes) (expected_by_line eps))
        + length (filter (\<lambda>(l, expected). l \<notin> pe_line_number ` set pes) (expected_by_line eps))
        = length (expected_by_line eps)"
  proof -
    have "filter (\<lambda>(l, expected). l \<notin> pe_line_number ` set pes) (expected_by_line eps) =
          filter (\<lambda>x. \<not> (case x of (l, expected) \<Rightarrow> l \<in> pe_line_number ` set pes))
            (expected_by_line eps)"
      by (rule filter_cong) auto
    then show ?thesis
      by (simp only: sum_length_filter_compl)
  qed
  then show "length (matched_errors (map_expected_to_actual_errors eps pes))
       + length (unmatched_expected (map_expected_to_actual_errors eps pes))
       = card (ep_line_number ` set eps)"
    unfolding m u by (simp add: retained_count)
  have "card (ep_line_number ` set eps) \<le> length eps"
    using card_image_le[of "set eps" ep_line_number] card_length[of eps] by simp
  then show "int (card (ep_line_number ` set eps))
      \<le> total_expected (map_expected_to_actual_errors eps pes)"
    by (simp add: mapping_fields)
  show "total_expected (map_expected_to_actual_errors eps pes) = int (length eps)"
    by (simp add: mapping_fields)
  show "\<forall>e \<in> set pes. pe_line_number e \<notin> ep_line_number ` set eps
         \<longrightarrow> message e \<in> set (unexpected_errors (map_expected_to_actual_errors eps pes))"
  proof (intro ballI impI)
    fix e assume e: "e \<in> set pes" and l: "pe_line_number e \<notin> ep_line_number ` set eps"
    from e have "(pe_line_number e, filter (\<lambda>x. pe_line_number x = pe_line_number e) pes)
        \<in> set (actual_by_line pes)"
      by (rule actual_by_line_mem)
    moreover from e have "e \<in> set (filter (\<lambda>x. pe_line_number x = pe_line_number e) pes)"
      by simp
    ultimately show "message e \<in> set (unexpected_errors (map_expected_to_actual_errors eps pes))"
      using l unfolding mapping_fields dict_has_expected
      by (fastforce simp: image_iff)
  qed
qed

text \<open>Two expected patterns on line 3 and one on line 5, parse errors on lines 3 and 7:
  the second pattern of line 3 is matched, the one of line 5 is unmatched, two patterns
  are named where \<open>total_expected\<close> is 3, and the error of line 7 is unexpected.\<close>

theorem expected_actual_correlation_witness:
  "matched_errors (map_expected_to_actual_errors expected_on_lines_3_3_5 errors_on_lines_3_7) =
     [\<lparr>me_line = 3, me_expected = ''second'', me_actual = [''on line 3'']\<rparr>]
   \<and> unmatched_expected (map_expected_to_actual_errors expected_on_lines_3_3_5 errors_on_lines_3_7)
       = [''third'']
   \<and> total_expected (map_expected_to_actual_errors expected_on_lines_3_3_5 errors_on_lines_3_7) = 3
   \<and> ''on line 7''
       \<in> set (unexpected_errors
                (map_expected_to_actual_errors expected_on_lines_3_3_5 errors_on_lines_3_7))"
proof -
  have by_line: "expected_by_line expected_on_lines_3_3_5 =
      [(3, \<lparr>pattern = ''second'', error_category = ''general'', regex_pattern = None,
            ep_line_number = 3\<rparr>),
       (5, \<lparr>pattern = ''third'', error_category = ''general'', regex_pattern = None,
            ep_line_number = 5\<rparr>)]"
    by (simp add: expected_by_line_def expected_on_lines_3_3_5_def)
  have e: "errors_on_lines_3_7 ! 1 \<in> set errors_on_lines_3_7"
    and l: "pe_line_number (errors_on_lines_3_7 ! 1)
              \<notin> ep_line_number ` set expected_on_lines_3_3_5"
    and m: "message (errors_on_lines_3_7 ! 1) = ''on line 7''"
    by (simp_all add: errors_on_lines_3_7_def expected_on_lines_3_3_5_def)
  note c = expected_actual_correlation[of expected_on_lines_3_3_5 errors_on_lines_3_7]
  from c have "matched_errors
        (map_expected_to_actual_errors expected_on_lines_3_3_5 errors_on_lines_3_7) =
       map (\<lambda>(l, expected). \<lparr>me_line = l, me_expected = pattern expected,
                me_actual = map message (filter (\<lambda>e. pe_line_number e = l) errors_on_lines_3_7)\<rparr>)
         (filter (\<lambda>(l, expected). l \<in> pe_line_number ` set errors_on_lines_3_7)
            (expected_by_line expected_on_lines_3_3_5))"
    by (rule_tac conjunct1, rule_tac conjunct2, rule_tac conjunct2)
  then have 1: "matched_errors
        (map_expected_to_actual_errors expected_on_lines_3_3_5 errors_on_lines_3_7) =
     [\<lparr>me_line = 3, me_expected = ''second'', me_actual = [''on line 3'']\<rparr>]"
    unfolding by_line by (simp add: errors_on_lines_3_7_def)
  from c have "unmatched_expected
        (map_expected_to_actual_errors expected_on_lines_3_3_5 errors_on_lines_3_7) =
       map (\<lambda>(l, expected). pattern expected)
         (filter (\<lambda>(l, expected). l \<notin> pe_line_number ` set errors_on_lines_3_7)
            (expected_by_line expected_on_lines_3_3_5))"
    by (rule_tac conjunct1, rule_tac conjunct2, rule_tac conjunct2, rule_tac conjunct2)
  then have 2: "unmatched_expected
        (map_expected_to_actual_errors expected_on_lines_3_3_5 errors_on_lines_3_7) = [''third'']"
    unfolding by_line by (simp add: errors_on_lines_3_7_def)
  from c have "total_expected
        (map_expected_to_actual_errors expected_on_lines_3_3_5 errors_on_lines_3_7)
      = int (length expected_on_lines_3_3_5)"
    by simp
  then have 3: "total_expected
        (map_expected_to_actual_errors expected_on_lines_3_3_5 errors_on_lines_3_7) = 3"
    by (simp add: expected_on_lines_3_3_5_def)
  from c have "\<forall>e \<in> set errors_on_lines_3_7.
       pe_line_number e \<notin> ep_line_number ` set expected_on_lines_3_3_5
         \<longrightarrow> message e \<in> set (unexpected_errors
               (map_expected_to_actual_errors expected_on_lines_3_3_5 errors_on_lines_3_7))"
    by simp
  with e l m have 4: "''on line 7'' \<in> set (unexpected_errors
        (map_expected_to_actual_errors expected_on_lines_3_3_5 errors_on_lines_3_7))"
    by metis
  from 1 2 3 4 show ?thesis by (intro conjI)
qed


end
